theory Spec2Isabelle
  imports Complex_Main "HOL-Library.Sublist"
begin

section \<open>Values of Python, numpy and pandas\<close>

text \<open>
  The scoring engine is Python on top of pandas and numpy. Floating-point numbers are
  idealised: a finite float is a real number, and the only non-finite values are the ones
  the code can produce by itself (a missing entry or an undefined statistic is NaN, a
  numpy division by zero is an infinity or NaN). Rounding error of the binary
  representation is not modelled.
\<close>

datatype py_error = ZeroDivisionError | IndexError

text \<open>A pandas Series of responses: \<open>None\<close> is a missing entry (NaN).\<close>

type_synonym series = "real option list"

text \<open>A pandas DataFrame: its number of rows (the index) and its labelled columns, in order.
  Column labels are taken to be unique.\<close>

record dataframe =
  nrows :: nat
  columns :: "(string \<times> series) list"

definition wf_dataframe :: "dataframe \<Rightarrow> bool" where
  "wf_dataframe df \<longleftrightarrow>
     list_all (\<lambda>c. length (snd c) = nrows df) (columns df) \<and> distinct (map fst (columns df))"

text \<open>\<open>Series.dropna()\<close>: the non-missing entries, in order.\<close>

fun dropna :: "series \<Rightarrow> real list" where
  "dropna [] = []"
| "dropna (None # xs) = dropna xs"
| "dropna (Some v # xs) = v # dropna xs"

text \<open>\<open>(series <cond>).sum()\<close>: a comparison with a missing entry is False, so the sum
  counts the non-missing entries that satisfy the condition.\<close>

definition count_where :: "(real \<Rightarrow> bool) \<Rightarrow> series \<Rightarrow> nat" where
  "count_where P xs = length (filter P (dropna xs))"

text \<open>\<open>round(x, ndigits)\<close> on a float: to the nearest multiple of \<open>10 ^ -ndigits\<close>, a tie going
  to the even neighbour.\<close>

definition rint :: "real \<Rightarrow> int" where
  "rint x =
     (let f = \<lfloor>x\<rfloor>; d = x - of_int f
      in if d < 1 / 2 then f else if 1 / 2 < d then f + 1 else if even f then f else f + 1)"

definition py_round :: "nat \<Rightarrow> real \<Rightarrow> real" where
  "py_round ndigits x = of_int (rint (x * 10 ^ ndigits)) / 10 ^ ndigits"

text \<open>A true division of Python: zero as divisor is recorded as the error, so that a
  function which can reach one shows it in its result. Where the dividend is a numpy integer
  (the counts of the NPQS functions) numpy would return an infinity or NaN with a warning
  instead of raising; recording the error there is the stricter reading, and a result
  \<open>Inr\<close> shows that no division by zero takes place at all.\<close>

definition truediv :: "real \<Rightarrow> real \<Rightarrow> py_error + real" where
  "truediv a b = (if b = 0 then Inl ZeroDivisionError else Inr (a / b))"

text \<open>Sequencing of steps that may raise: the first error is the result.\<close>

definition and_then :: "py_error + 'a \<Rightarrow> ('a \<Rightarrow> py_error + 'b) \<Rightarrow> py_error + 'b" where
  "and_then m f = (case m of Inl e \<Rightarrow> Inl e | Inr v \<Rightarrow> f v)"

section \<open>Net Promoter Quality Score\<close>

definition is_promoter :: "real \<Rightarrow> bool" where
  "is_promoter v \<longleftrightarrow> 9 \<le> v"

definition is_detractor :: "real \<Rightarrow> bool" where
  "is_detractor v \<longleftrightarrow> v \<le> 6"

definition is_passive :: "real \<Rightarrow> bool" where
  "is_passive v \<longleftrightarrow> 7 \<le> v \<and> v \<le> 8"

text \<open>What the specification calls the valid responses, and its two extreme cases.\<close>

definition all_promoters :: "series \<Rightarrow> bool" where
  "all_promoters xs \<longleftrightarrow> list_all is_promoter (dropna xs)"

definition all_detractors :: "series \<Rightarrow> bool" where
  "all_detractors xs \<longleftrightarrow> list_all is_detractor (dropna xs)"

subsection \<open>\<open>QualityCultureAnalyzer.calculate_npqs_score\<close> (analytics/statistical\_pipeline.py)\<close>

record npqs_score_result =
  npqs_score :: real
  promoters_pct :: real
  detractors_pct :: real
  passives_pct :: real
  n_responses :: int

text \<open>A percentage field of the returned dict:
  \<open>round((k / total) * 100, 2) if total > 0 else 0\<close>.\<close>

definition pct_if_any :: "int \<Rightarrow> int \<Rightarrow> py_error + real" where
  "pct_if_any k tot =
     (if 0 < tot then and_then (truediv (of_int k) (of_int tot)) (\<lambda>q. Inr (py_round 2 (q * 100)))
      else Inr 0)"

text \<open>The body of \<open>calculate_npqs_score\<close> from the point where the column
  \<open>recommendations\<close> has been selected (lines 111 to 124).\<close>

definition npqs_of_recommendations :: "series \<Rightarrow> py_error + npqs_score_result" where
  "npqs_of_recommendations recommendations =
     (let p = int (count_where is_promoter recommendations);
          d = int (count_where is_detractor recommendations);
          tot = int (length (dropna recommendations))
      in and_then (if 0 < tot
              then and_then (truediv (of_int (p - d)) (of_int tot)) (\<lambda>q. Inr (q * 100))
              else Inr 0) (\<lambda>score.
         and_then (pct_if_any p tot) (\<lambda>pp.
         and_then (pct_if_any d tot) (\<lambda>dp.
         and_then (pct_if_any (tot - p - d) tot) (\<lambda>qp.
         Inr \<lparr> npqs_score = py_round 2 score, promoters_pct = pp, detractors_pct = dp,
               passives_pct = qp, n_responses = tot \<rparr>)))))"

text \<open>The whole method: the recommendation item is the last column whose label contains
  \<open>recommend\<close>; \<open>columns[-1]\<close> of an empty selection raises IndexError.\<close>

definition calculate_npqs_score :: "dataframe \<Rightarrow> py_error + npqs_score_result" where
  "calculate_npqs_score data =
     (case filter (\<lambda>c. sublist ''recommend'' (fst c)) (columns data) of
        [] \<Rightarrow> Inl IndexError
      | c # cs \<Rightarrow> npqs_of_recommendations (snd (last (c # cs))))"

subsection \<open>\<open>NPQSScorer.calculate_npqs\<close> (core/scoring\_system.py)\<close>

text \<open>The returned dict; the three percentage keys are absent (\<open>None\<close>) in the dict of the
  two early returns.\<close>

record npqs_result =
  npqs :: real
  promoters :: int
  passives :: int
  detractors :: int
  promoter_pct :: "real option"
  passive_pct :: "real option"
  detractor_pct :: "real option"

definition npqs_empty_result :: npqs_result where
  "npqs_empty_result =
     \<lparr> npqs = 0, promoters = 0, passives = 0, detractors = 0,
       promoter_pct = None, passive_pct = None, detractor_pct = None \<rparr>"

definition pct_of :: "int \<Rightarrow> int \<Rightarrow> py_error + real" where
  "pct_of k tot = and_then (truediv (of_int k) (of_int tot)) (\<lambda>q. Inr (py_round 2 (q * 100)))"

definition calculate_npqs :: "series \<Rightarrow> py_error + npqs_result" where
  "calculate_npqs responses =
     (if responses = [] then Inr npqs_empty_result
      else
        let p = int (count_where is_promoter responses);
            q = int (count_where is_passive responses);
            d = int (count_where is_detractor responses);
            tot = int (length responses)
        in if tot = 0 then Inr npqs_empty_result
           else
             and_then (truediv (of_int (p - d)) (of_int tot)) (\<lambda>r.
             and_then (pct_of p tot) (\<lambda>pp.
             and_then (pct_of q tot) (\<lambda>qp.
             and_then (pct_of d tot) (\<lambda>dp.
             Inr \<lparr> npqs = py_round 2 (r * 100), promoters = p, passives = q, detractors = d,
                   promoter_pct = Some pp, passive_pct = Some qp, detractor_pct = Some dp \<rparr>)))))"

section \<open>Scalars of numpy and statistics of pandas\<close>

text \<open>
  A float scalar as numpy computes with it: a finite value, plus or minus infinity, or NaN.
  Arithmetic never raises: a division by zero gives an infinity, or NaN for \<open>0 / 0\<close> (numpy
  only warns). The sign of a zero is not modelled: a zero divisor counts as \<open>+0\<close>.
\<close>

datatype npfloat = Fin real | PInf | NInf | NaN

text \<open>A pandas statistic that is undefined (NaN) is \<open>None\<close>; as a scalar it is \<open>NaN\<close>.\<close>

fun np :: "real option \<Rightarrow> npfloat" where
  "np None = NaN"
| "np (Some v) = Fin v"

fun np_neg :: "npfloat \<Rightarrow> npfloat" where
  "np_neg (Fin x) = Fin (- x)"
| "np_neg PInf = NInf"
| "np_neg NInf = PInf"
| "np_neg NaN = NaN"

fun np_add :: "npfloat \<Rightarrow> npfloat \<Rightarrow> npfloat" where
  "np_add (Fin x) (Fin y) = Fin (x + y)"
| "np_add NaN b = NaN"
| "np_add a NaN = NaN"
| "np_add PInf NInf = NaN"
| "np_add NInf PInf = NaN"
| "np_add PInf b = PInf"
| "np_add a PInf = PInf"
| "np_add NInf b = NInf"
| "np_add a NInf = NInf"

definition np_sub :: "npfloat \<Rightarrow> npfloat \<Rightarrow> npfloat" where
  "np_sub a b = np_add a (np_neg b)"

text \<open>The infinity with the sign of a non-zero real.\<close>

definition inf_of_sign :: "real \<Rightarrow> npfloat" where
  "inf_of_sign x = (if 0 < x then PInf else NInf)"

fun np_mul :: "npfloat \<Rightarrow> npfloat \<Rightarrow> npfloat" where
  "np_mul (Fin x) (Fin y) = Fin (x * y)"
| "np_mul NaN b = NaN"
| "np_mul a NaN = NaN"
| "np_mul (Fin x) PInf = (if x = 0 then NaN else inf_of_sign x)"
| "np_mul (Fin x) NInf = (if x = 0 then NaN else inf_of_sign (- x))"
| "np_mul PInf (Fin y) = (if y = 0 then NaN else inf_of_sign y)"
| "np_mul NInf (Fin y) = (if y = 0 then NaN else inf_of_sign (- y))"
| "np_mul PInf PInf = PInf"
| "np_mul NInf NInf = PInf"
| "np_mul PInf NInf = NInf"
| "np_mul NInf PInf = NInf"

fun np_div :: "npfloat \<Rightarrow> npfloat \<Rightarrow> npfloat" where
  "np_div (Fin x) (Fin y) =
     (if y = 0 then (if x = 0 then NaN else inf_of_sign x) else Fin (x / y))"
| "np_div NaN b = NaN"
| "np_div a NaN = NaN"
| "np_div (Fin x) PInf = Fin 0"
| "np_div (Fin x) NInf = Fin 0"
| "np_div PInf (Fin y) = (if 0 \<le> y then PInf else NInf)"
| "np_div NInf (Fin y) = (if 0 \<le> y then NInf else PInf)"
| "np_div PInf PInf = NaN"
| "np_div PInf NInf = NaN"
| "np_div NInf PInf = NaN"
| "np_div NInf NInf = NaN"

text \<open>Comparisons: every comparison with NaN is False.\<close>

fun np_le :: "npfloat \<Rightarrow> npfloat \<Rightarrow> bool" where
  "np_le (Fin x) (Fin y) = (x \<le> y)"
| "np_le NaN b = False"
| "np_le a NaN = False"
| "np_le NInf b = True"
| "np_le a PInf = True"
| "np_le PInf b = False"
| "np_le a NInf = False"

fun np_lt :: "npfloat \<Rightarrow> npfloat \<Rightarrow> bool" where
  "np_lt (Fin x) (Fin y) = (x < y)"
| "np_lt NaN b = False"
| "np_lt a NaN = False"
| "np_lt PInf b = False"
| "np_lt a NInf = False"
| "np_lt NInf b = True"
| "np_lt a PInf = True"

fun np_abs :: "npfloat \<Rightarrow> npfloat" where
  "np_abs (Fin x) = Fin \<bar>x\<bar>"
| "np_abs PInf = PInf"
| "np_abs NInf = PInf"
| "np_abs NaN = NaN"

text \<open>\<open>round(x, ndigits)\<close> leaves an infinity and NaN as they are.\<close>

fun np_round :: "nat \<Rightarrow> npfloat \<Rightarrow> npfloat" where
  "np_round k (Fin x) = Fin (py_round k x)"
| "np_round k PInf = PInf"
| "np_round k NInf = NInf"
| "np_round k NaN = NaN"

text \<open>The builtin \<open>max(0, x)\<close> of Python: the first argument stays unless the second compares
  greater, so \<open>max(0, nan)\<close> is 0.\<close>

definition py_max0 :: "npfloat \<Rightarrow> npfloat" where
  "py_max0 x = (if np_lt (Fin 0) x then x else Fin 0)"

text \<open>The builtin \<open>sum\<close> over numpy scalars, from the left, starting at 0.\<close>

definition np_sum :: "npfloat list \<Rightarrow> npfloat" where
  "np_sum xs = foldl np_add (Fin 0) xs"

subsection \<open>Series statistics (missing entries are skipped)\<close>

definition mean_list :: "real list \<Rightarrow> real" where
  "mean_list vs = sum_list vs / of_nat (length vs)"

text \<open>\<open>Series.mean()\<close>: NaN when no entry is present.\<close>

definition series_mean :: "series \<Rightarrow> real option" where
  "series_mean xs = (if dropna xs = [] then None else Some (mean_list (dropna xs)))"

text \<open>\<open>Series.sum()\<close>: the sum of the entries that are present (0 when there is none).\<close>

definition series_sum :: "series \<Rightarrow> real" where
  "series_sum xs = sum_list (dropna xs)"

text \<open>\<open>Series.var()\<close>: the unbiased sample variance (\<open>ddof = 1\<close>) of the entries that are
  present; NaN when fewer than two are.\<close>

definition var_list :: "real list \<Rightarrow> real" where
  "var_list vs = (\<Sum>v\<leftarrow>vs. (v - mean_list vs)\<^sup>2) / (of_nat (length vs) - 1)"

definition series_var :: "series \<Rightarrow> real option" where
  "series_var xs = (if length (dropna xs) < 2 then None else Some (var_list (dropna xs)))"

subsection \<open>Data frames\<close>

text \<open>\<open>DataFrame.empty\<close>: no row or no column.\<close>

definition df_empty :: "dataframe \<Rightarrow> bool" where
  "df_empty df \<longleftrightarrow> nrows df = 0 \<or> columns df = []"

text \<open>\<open>item in data.columns\<close> for every item of a list.\<close>

definition has_columns :: "dataframe \<Rightarrow> string list \<Rightarrow> bool" where
  "has_columns df items \<longleftrightarrow> list_all (\<lambda>i. i \<in> fst ` set (columns df)) items"

text \<open>\<open>data[items]\<close> for items that are all columns of the frame (the callers check it
  first): the named columns, in the order of the list.\<close>

definition select_columns :: "dataframe \<Rightarrow> string list \<Rightarrow> dataframe" where
  "select_columns df items =
     \<lparr> nrows = nrows df, columns = map (\<lambda>i. (i, the (map_of (columns df) i))) items \<rparr>"

text \<open>Row \<open>i\<close> of a frame, across its columns.\<close>

definition row :: "dataframe \<Rightarrow> nat \<Rightarrow> series" where
  "row df i = map (\<lambda>c. snd c ! i) (columns df)"

text \<open>\<open>df.mean(axis=1)\<close> and \<open>df.sum(axis=1)\<close>: one value per row.\<close>

definition row_means :: "dataframe \<Rightarrow> series" where
  "row_means df = map (\<lambda>i. series_mean (row df i)) [0..<nrows df]"

definition row_sums :: "dataframe \<Rightarrow> series" where
  "row_sums df = map (\<lambda>i. Some (series_sum (row df i))) [0..<nrows df]"

section \<open>Maturity levels\<close>

subsection \<open>\<open>MaturityScorer\<close> (core/scoring\_system.py): the 1 to 5 scale\<close>

text \<open>The table \<open>self.levels\<close> of the constructor: rank to label.\<close>

definition levels :: "nat \<Rightarrow> string option" where
  "levels = [1 \<mapsto> ''Initial/Ad-hoc'', 2 \<mapsto> ''Managed'', 3 \<mapsto> ''Defined'',
             4 \<mapsto> ''Quantitatively Managed'', 5 \<mapsto> ''Optimizing'']"

definition get_maturity_level :: "npfloat \<Rightarrow> string" where
  "get_maturity_level score =
     (if np_le (Fin (45 / 10)) score then ''Optimizing''
      else if np_le (Fin (35 / 10)) score then ''Quantitatively Managed''
      else if np_le (Fin (25 / 10)) score then ''Defined''
      else if np_le (Fin (15 / 10)) score then ''Managed''
      else ''Initial/Ad-hoc'')"

subsection \<open>\<open>QualityCultureAnalyzer\<close> (analytics/statistical\_pipeline.py): the 0 to 100 scale\<close>

text \<open>
  The method returns one of four fixed dicts (level, colour, description). Two of the level
  labels and the descriptions carry French accents; a dict is represented by its level and
  its colour.
\<close>

datatype maturity_band = Excellence | Amelioration | Developpement | Initial

definition band_color :: "maturity_band \<Rightarrow> string" where
  "band_color b =
     (case b of Excellence \<Rightarrow> ''#2E8B57'' | Amelioration \<Rightarrow> ''#FFD700''
      | Developpement \<Rightarrow> ''#FF8C00'' | Initial \<Rightarrow> ''#DC143C'')"

definition calculate_maturity_level :: "npfloat \<Rightarrow> maturity_band" where
  "calculate_maturity_level score =
     (if np_le (Fin 80) score then Excellence
      else if np_le (Fin 60) score then Amelioration
      else if np_le (Fin 40) score then Developpement
      else Initial)"

section \<open>Sample adequacy: \<open>PsychometricValidator.assess_sample_adequacy\<close>
  (core/validation\_framework.py)\<close>

record sample_adequacy =
  sa_n_responses :: int
  sa_n_items :: int
  ratio :: real
  adequacy_5_1 :: bool
  adequacy_10_1 :: bool
  kline_adequate :: bool
  recommended_minimum :: int

text \<open>\<open>n_responses / n_items\<close> divides two Python ints: with no column it raises
  ZeroDivisionError while the returned dict is being built.\<close>

definition assess_sample_adequacy :: "dataframe \<Rightarrow> py_error + sample_adequacy" where
  "assess_sample_adequacy data =
     (let n_responses = int (nrows data);
          n_items = int (length (columns data));
          n_cases_rule = (5 * n_items \<le> n_responses);
          n_cases_rule_10 = (10 * n_items \<le> n_responses);
          kline = (20 * n_items \<le> n_responses)
      in and_then (truediv (of_int n_responses) (of_int n_items)) (\<lambda>q.
         Inr \<lparr> sa_n_responses = n_responses, sa_n_items = n_items, ratio = py_round 2 q,
               adequacy_5_1 = n_cases_rule, adequacy_10_1 = n_cases_rule_10,
               kline_adequate = kline, recommended_minimum = max 200 (10 * n_items) \<rparr>))"

section \<open>Cronbach's alpha\<close>

text \<open>Both validator classes are built with the two thresholds (defaults 0.7 and 0.5).\<close>

record validator =
  alpha_threshold :: real
  ave_threshold :: real

subsection \<open>\<open>PsychometricValidator\<close> (core/validation\_framework.py)\<close>

text \<open>The coefficient before any clamping, as both classes compute it:
  \<open>(n_items / (n_items - 1)) * (1 - item_vars.sum() / total_var)\<close>. The first division is
  one of Python ints, the second one of numpy scalars.\<close>

definition alpha_formula :: "dataframe \<Rightarrow> py_error + npfloat" where
  "alpha_formula data =
     (let item_vars = map (\<lambda>c. series_var (snd c)) (columns data);
          total_var = series_var (row_sums data);
          n_items = int (length (columns data))
      in and_then (truediv (of_int n_items) (of_int (n_items - 1))) (\<lambda>k.
         Inr (np_mul (Fin k)
               (np_sub (Fin 1) (np_div (Fin (series_sum item_vars)) (np total_var))))))"

definition calculate_cronbach_alpha :: "dataframe \<Rightarrow> py_error + npfloat" where
  "calculate_cronbach_alpha data =
     (if df_empty data \<or> length (columns data) < 2 then Inr (Fin 0)
      else if series_var (row_sums data) = Some 0 then Inr (Fin 0)
      else and_then (alpha_formula data) (\<lambda>alpha. Inr (py_max0 alpha)))"

text \<open>The entry of \<open>assess_reliability\<close> for one dimension whose items are all columns of
  the data.\<close>

record alpha_entry =
  alpha_value :: npfloat
  acceptable :: bool
  n_items :: int

definition alpha_entry_of :: "validator \<Rightarrow> dataframe \<Rightarrow> string list \<Rightarrow> py_error + alpha_entry" where
  "alpha_entry_of self data items =
     and_then (calculate_cronbach_alpha (select_columns data items)) (\<lambda>alpha.
       Inr \<lparr> alpha_value = np_round 3 alpha,
             acceptable = np_le (Fin (alpha_threshold self)) alpha,
             n_items = int (length items) \<rparr>)"

text \<open>The loop of \<open>assess_reliability\<close> that fills \<open>reliability_results["cronbach_alpha"]\<close>:
  the dimensions with an item that is no column are skipped.\<close>

fun cronbach_alpha_entries ::
  "validator \<Rightarrow> dataframe \<Rightarrow> (string \<times> string list) list \<Rightarrow> py_error + (string \<times> alpha_entry) list" where
  "cronbach_alpha_entries self data [] = Inr []"
| "cronbach_alpha_entries self data ((dimension, items) # rest) =
     (if has_columns data items
      then and_then (alpha_entry_of self data items) (\<lambda>e.
           and_then (cronbach_alpha_entries self data rest) (\<lambda>es. Inr ((dimension, e) # es)))
      else cronbach_alpha_entries self data rest)"

subsection \<open>\<open>StatisticalValidator.calculate_reliability\<close> (core/scoring\_system.py)\<close>

text \<open>The returned dict; the early return has the first two keys only.\<close>

record reliability =
  cronbach_alpha :: npfloat
  reliable :: bool
  rel_n_items :: "int option"
  rel_n_responses :: "int option"

definition calculate_reliability :: "validator \<Rightarrow> dataframe \<Rightarrow> py_error + reliability" where
  "calculate_reliability self responses =
     (if df_empty responses \<or> length (columns responses) < 2
      then Inr \<lparr> cronbach_alpha = Fin 0, reliable = False,
                 rel_n_items = None, rel_n_responses = None \<rparr>
      else and_then (alpha_formula responses) (\<lambda>alpha.
           Inr \<lparr> cronbach_alpha = np_round 3 alpha,
                 reliable = np_le (Fin (alpha_threshold self)) alpha,
                 rel_n_items = Some (int (length (columns responses))),
                 rel_n_responses = Some (int (nrows responses)) \<rparr>))"

section \<open>Dimension scores: \<open>QualityCultureAnalyzer.calculate_dimension_scores\<close>
  (analytics/statistical\_pipeline.py)\<close>

text \<open>
  The entry of one dimension. \<open>individual_scores\<close> is the series \<open>scores\<close> of the source, the
  dimension score of each respondent; \<open>mean_score\<close> is NaN (\<open>None\<close>) when no respondent has
  a score. The further summaries of the same series (\<open>std_score\<close>, \<open>median_score\<close>,
  \<open>percentile_25\<close>, \<open>percentile_75\<close>) are left out: they change no other field.
\<close>

record dimension_score =
  individual_scores :: series
  mean_score :: "real option"
  maturity_level :: maturity_band

definition dimension_score_of :: "dataframe \<Rightarrow> string list \<Rightarrow> dimension_score" where
  "dimension_score_of data items =
     (let dimension_data = select_columns data items;
          scores = map (map_option (\<lambda>m. m * 20)) (row_means dimension_data)
      in \<lparr> individual_scores = scores,
           mean_score = map_option (py_round 2) (series_mean scores),
           maturity_level = calculate_maturity_level (np (series_mean scores)) \<rparr>)"

text \<open>The dict of the scored dimensions, in the order of the structure; a dimension with an
  item that is no column of the data has no entry.\<close>

definition calculate_dimension_scores ::
  "dataframe \<Rightarrow> (string \<times> string list) list \<Rightarrow> (string \<times> dimension_score) list" where
  "calculate_dimension_scores data theoretical_structure =
     map (\<lambda>d. (fst d, dimension_score_of data (snd d)))
       (filter (\<lambda>d. has_columns data (snd d)) theoretical_structure)"

text \<open>The responses of a frame lie on the ordinal scale from \<open>lo\<close> to \<open>hi\<close> (missing entries
  are allowed).\<close>

definition on_scale :: "real \<Rightarrow> real \<Rightarrow> dataframe \<Rightarrow> bool" where
  "on_scale lo hi df \<longleftrightarrow>
     list_all (\<lambda>c. list_all (\<lambda>v. lo \<le> v \<and> v \<le> hi) (dropna (snd c))) (columns df)"

section \<open>Discriminant validity: \<open>PsychometricValidator._assess_discriminant_validity\<close>
  (core/validation\_framework.py)\<close>

text \<open>\<open>Series.corr\<close>: the Pearson correlation over the rows where both series have a value;
  NaN with fewer than two such rows or when one side does not vary.\<close>

definition pearson :: "real list \<Rightarrow> real list \<Rightarrow> real option" where
  "pearson xs ys =
     (let mx = mean_list xs; my = mean_list ys;
          sxy = (\<Sum>p\<leftarrow>zip xs ys. (fst p - mx) * (snd p - my));
          sxx = (\<Sum>x\<leftarrow>xs. (x - mx)\<^sup>2);
          syy = (\<Sum>y\<leftarrow>ys. (y - my)\<^sup>2)
      in if length xs < 2 \<or> sxx = 0 \<or> syy = 0 then None
         else Some (sxy / (sqrt sxx * sqrt syy)))"

fun complete_pairs :: "series \<Rightarrow> series \<Rightarrow> (real \<times> real) list" where
  "complete_pairs (Some a # xs) (Some b # ys) = (a, b) # complete_pairs xs ys"
| "complete_pairs (x # xs) (y # ys) = complete_pairs xs ys"
| "complete_pairs xs ys = []"

definition series_corr :: "series \<Rightarrow> series \<Rightarrow> real option" where
  "series_corr xs ys =
     (let ps = complete_pairs xs ys in pearson (map fst ps) (map snd ps))"

text \<open>\<open>d[key] = value\<close> on a dict kept in insertion order: an existing key keeps its place and
  takes the new value.\<close>

fun dict_set :: "'k \<Rightarrow> 'v \<Rightarrow> ('k \<times> 'v) list \<Rightarrow> ('k \<times> 'v) list" where
  "dict_set k v [] = [(k, v)]"
| "dict_set k v (p # ps) = (if fst p = k then (k, v) # ps else p # dict_set k v ps)"

text \<open>The key \<open>f"{dim1}_{dim2}"\<close> and the rounded correlation stored under it.\<close>

definition pair_key :: "string \<Rightarrow> string \<Rightarrow> string" where
  "pair_key dim1 dim2 = dim1 @ ''_'' @ dim2"

definition dimension_corr :: "dataframe \<Rightarrow> string list \<Rightarrow> string list \<Rightarrow> real option" where
  "dimension_corr data items1 items2 =
     (let score1 = row_means (select_columns data items1);
          score2 = row_means (select_columns data items2)
      in series_corr score1 score2)"

text \<open>The condition of the inner loop, on one ordered pair of entries of the structure.\<close>

definition scored_pair :: "dataframe \<Rightarrow> (string \<times> string list) \<times> (string \<times> string list) \<Rightarrow> bool" where
  "scored_pair data p \<longleftrightarrow>
     fst (fst p) \<noteq> fst (snd p) \<and> has_columns data (snd (fst p) @ snd (snd p))"

text \<open>The key and the value that the loop body assigns for a pair.\<close>

definition pair_entry ::
  "dataframe \<Rightarrow> (string \<times> string list) \<times> (string \<times> string list) \<Rightarrow> string \<times> npfloat" where
  "pair_entry data p =
     (pair_key (fst (fst p)) (fst (snd p)),
      np_round 3 (np (dimension_corr data (snd (fst p)) (snd (snd p)))))"

definition pair_step ::
  "dataframe \<Rightarrow> (string \<times> npfloat) list \<Rightarrow> (string \<times> string list) \<times> (string \<times> string list)
     \<Rightarrow> (string \<times> npfloat) list" where
  "pair_step data correlations p =
     (if scored_pair data p
      then dict_set (fst (pair_entry data p)) (snd (pair_entry data p)) correlations
      else correlations)"

record discriminant_validity =
  inter_dimension_correlations :: "(string \<times> npfloat) list"
  discriminant_valid :: bool

text \<open>The two nested loops run over the ordered pairs of entries, the first entry outermost.\<close>

definition assess_discriminant_validity ::
  "dataframe \<Rightarrow> (string \<times> string list) list \<Rightarrow> discriminant_validity" where
  "assess_discriminant_validity data structure =
     (let correlations = foldl (pair_step data) [] (List.product structure structure)
      in \<lparr> inter_dimension_correlations = correlations,
           discriminant_valid =
             list_all (\<lambda>c. np_lt (np_abs c) (Fin (85 / 100))) (map snd correlations) \<rparr>)"


section \<open>Maturity grid: \<open>MaturityScorer.calculate_maturity\<close> (core/scoring\_system.py)\<close>

text \<open>
  The entry of one dimension (a column of the responses). The key \<open>std\<close> and, in the result,
  the key \<open>maturity_distribution\<close> are left out: they are further statistics of the columns
  and change no other field.
\<close>

record dimension_maturity =
  score :: npfloat
  weighted_score :: npfloat
  level :: string

definition dimension_maturity_of :: "series \<Rightarrow> real \<Rightarrow> dimension_maturity" where
  "dimension_maturity_of col w =
     (let weighted = np_mul (np (series_mean col)) (Fin w)
      in \<lparr> score = np_round 2 (np (series_mean col)),
           weighted_score = np_round 2 weighted,
           level = get_maturity_level (np (series_mean col)) \<rparr>)"

text \<open>The returned dict. The early return for an empty frame names the level \<open>level\<close>, the
  full return names it \<open>overall_level\<close>; \<open>from_guard\<close> tells which of the two dicts it is.\<close>

record maturity =
  overall_maturity :: npfloat
  overall_level :: string
  dimension_scores :: "(string \<times> dimension_maturity) list"
  from_guard :: bool

text \<open>The weights in force: equal weights 1.0 for every column when none are supplied.\<close>

definition weights_in_force :: "dataframe \<Rightarrow> (string \<times> real) list option \<Rightarrow> (string \<times> real) list" where
  "weights_in_force responses weights =
     (case weights of None \<Rightarrow> map (\<lambda>c. (fst c, 1)) (columns responses) | Some w \<Rightarrow> w)"

text \<open>The columns that the loop scores (\<open>if dimension in weights\<close>) and the \<open>total_weight\<close> it
  accumulates.\<close>

definition scored_columns :: "dataframe \<Rightarrow> (string \<times> real) list \<Rightarrow> (string \<times> series) list" where
  "scored_columns responses w = filter (\<lambda>c. map_of w (fst c) \<noteq> None) (columns responses)"

definition total_weight :: "dataframe \<Rightarrow> (string \<times> real) list \<Rightarrow> real" where
  "total_weight responses w = (\<Sum>c\<leftarrow>scored_columns responses w. the (map_of w (fst c)))"

text \<open>
  \<open>sum(...) / total_weight\<close>. With no scored dimension the sum is the Python int 0 and the
  division is Python's, which raises on a zero divisor; otherwise the sum is a numpy scalar
  and the division is numpy's, which does not raise.
\<close>

definition overall_score_of :: "npfloat list \<Rightarrow> real \<Rightarrow> py_error + npfloat" where
  "overall_score_of weighted_scores tw =
     (if weighted_scores = [] then and_then (truediv 0 tw) (\<lambda>q. Inr (Fin q))
      else Inr (np_div (np_sum weighted_scores) (Fin tw)))"

definition calculate_maturity ::
  "dataframe \<Rightarrow> (string \<times> real) list option \<Rightarrow> py_error + maturity" where
  "calculate_maturity responses weights =
     (if df_empty responses
      then Inr \<lparr> overall_maturity = Fin 0, overall_level = ''Initial/Ad-hoc'',
                 dimension_scores = [], from_guard = True \<rparr>
      else
        let w = weights_in_force responses weights;
            entries = map (\<lambda>c. (fst c, dimension_maturity_of (snd c) (the (map_of w (fst c)))))
                        (scored_columns responses w)
        in and_then (overall_score_of (map (\<lambda>e. weighted_score (snd e)) entries)
                       (total_weight responses w)) (\<lambda>overall_score.
           Inr \<lparr> overall_maturity = np_round 2 overall_score,
                 overall_level = get_maturity_level overall_score,
                 dimension_scores = entries, from_guard = False \<rparr>))"

section \<open>Facts about rounding\<close>

lemma rint_of_int [simp]: "rint (of_int n) = n"
  by (simp add: rint_def)

lemma rint_zero [simp]: "rint 0 = 0"
  using rint_of_int [of 0] by simp

lemma py_round_zero [simp]: "py_round k 0 = 0"
  by (simp add: py_round_def)

lemma rint_floor_cases:
  "rint x = \<lfloor>x\<rfloor> \<or> rint x = \<lfloor>x\<rfloor> + 1"
  by (simp add: rint_def Let_def)

lemma rint_lower: "x - 1/2 \<le> of_int (rint x)"
proof -
  define f where "f = \<lfloor>x\<rfloor>"
  have "of_int f \<le> x" "x < of_int f + 1" unfolding f_def by linarith+
  then show ?thesis unfolding rint_def Let_def f_def [symmetric] by auto
qed

lemma rint_upper: "of_int (rint x) \<le> x + 1/2"
proof -
  define f where "f = \<lfloor>x\<rfloor>"
  have "of_int f \<le> x" "x < of_int f + 1" unfolding f_def by linarith+
  then show ?thesis unfolding rint_def Let_def f_def [symmetric] by auto
qed

lemma rint_mono: "x \<le> y \<Longrightarrow> rint x \<le> rint y"
proof -
  assume xy: "x \<le> y"
  have fl: "\<lfloor>x\<rfloor> \<le> \<lfloor>y\<rfloor>" using xy by (rule floor_mono)
  show ?thesis
  proof (cases "\<lfloor>x\<rfloor> = \<lfloor>y\<rfloor>")
    case True
    then show ?thesis using xy by (auto simp: rint_def Let_def)
  next
    case False
    then have "\<lfloor>x\<rfloor> + 1 \<le> \<lfloor>y\<rfloor>" using fl by simp
    moreover have "rint x \<le> \<lfloor>x\<rfloor> + 1" using rint_floor_cases [of x] by auto
    moreover have "\<lfloor>y\<rfloor> \<le> rint y" using rint_floor_cases [of y] by auto
    ultimately show ?thesis by linarith
  qed
qed

lemma py_round_mono: "x \<le> y \<Longrightarrow> py_round k x \<le> py_round k y"
  by (simp add: py_round_def divide_right_mono rint_mono)

lemma py_round_of_int [simp]: "py_round k (of_int n) = of_int n"
proof -
  have "of_int n * (10::real) ^ k = of_int (n * 10 ^ k)" by simp
  then have "rint (of_int n * 10 ^ k) = n * 10 ^ k" by (simp only: rint_of_int)
  then show ?thesis by (simp add: py_round_def)
qed

lemma py_round_numeral [simp]: "py_round k (numeral n) = numeral n"
  using py_round_of_int [of k "numeral n"] by simp

lemma py_round_neg_numeral [simp]: "py_round k (- numeral n) = - numeral n"
  using py_round_of_int [of k "- numeral n"] by simp

lemma py_round_bounds:
  "of_int a \<le> x \<Longrightarrow> x \<le> of_int b \<Longrightarrow> of_int a \<le> py_round k x \<and> py_round k x \<le> of_int b"
  using py_round_mono [of "of_int a" x k] py_round_mono [of x "of_int b" k] by simp

lemma py_round2_eq_100: 
  assumes "v \<le> 100" shows "py_round 2 v = 100 \<longleftrightarrow> 99995 / 1000 \<le> v"
proof
  assume "99995 / 1000 \<le> v"
  then have "py_round 2 (99995 / 1000) \<le> py_round 2 v" by (rule py_round_mono)
  moreover have "py_round 2 (99995 / 1000) = 100" by (simp add: py_round_def rint_def Let_def)
  moreover have "py_round 2 v \<le> py_round 2 100" using assms by (rule py_round_mono)
  ultimately show "py_round 2 v = 100" by simp
next
  assume h: "py_round 2 v = 100"
  show "99995 / 1000 \<le> v"
  proof (rule ccontr)
    assume "\<not> 99995 / 1000 \<le> v"
    then have "v * 100 + 1/2 < 10000" by simp
    then have "of_int (rint (v * 100)) < (10000::real)" using rint_upper [of "v * 100"] by linarith
    then show False using h by (simp add: py_round_def)
  qed
qed

lemma py_round2_eq_m100: 
  assumes "- 100 \<le> v" shows "py_round 2 v = - 100 \<longleftrightarrow> v \<le> - 99995 / 1000"
proof
  assume "v \<le> - 99995 / 1000"
  then have "py_round 2 v \<le> py_round 2 (- 99995 / 1000)" by (rule py_round_mono)
  moreover have "py_round 2 (- 99995 / 1000) = - 100" by (simp add: py_round_def rint_def Let_def)
  moreover have "py_round 2 (- 100) \<le> py_round 2 v" using assms by (rule py_round_mono)
  ultimately show "py_round 2 v = - 100" by simp
next
  assume h: "py_round 2 v = - 100"
  show "v \<le> - 99995 / 1000"
  proof (rule ccontr)
    assume "\<not> v \<le> - 99995 / 1000"
    then have "- 10000 < v * 100 - 1/2" by simp
    then have "(- 10000::real) < of_int (rint (v * 100))" using rint_lower [of "v * 100"] by linarith
    then show False using h by (simp add: py_round_def)
  qed
qed

lemma length_dropna_le: "length (dropna xs) \<le> length xs"
  by (induction xs rule: dropna.induct) auto

lemma dropna_no_missing: "None \<notin> set xs \<Longrightarrow> length (dropna xs) = length xs"
  by (induction xs rule: dropna.induct) auto

lemma count_where_le: "count_where P xs \<le> length (dropna xs)"
  by (simp add: count_where_def)

lemma count_where_all: "count_where P xs = length (dropna xs) \<longleftrightarrow> list_all P (dropna xs)"
  unfolding count_where_def list_all_iff
  by (metis filter_id_conv length_filter_less less_irrefl_nat filter_True)

lemma promoters_detractors_le:
  "count_where is_promoter xs + count_where is_detractor xs \<le> length (dropna xs)"
proof -
  have "length (filter is_promoter ys) + length (filter is_detractor ys) \<le> length ys" for ys
    by (induction ys) (auto simp: is_promoter_def is_detractor_def)
  then show ?thesis by (simp add: count_where_def)
qed

section \<open>Facts about the two NPQS computations\<close>


lemma npqs_of_recommendations_eq:
  "npqs_of_recommendations xs =
     (let p = int (count_where is_promoter xs); d = int (count_where is_detractor xs);
          n = int (length (dropna xs))
      in Inr \<lparr> npqs_score = (if dropna xs = [] then 0 else py_round 2 (of_int (p - d) / of_int n * 100)),
               promoters_pct = (if dropna xs = [] then 0 else py_round 2 (of_int p / of_int n * 100)),
               detractors_pct = (if dropna xs = [] then 0 else py_round 2 (of_int d / of_int n * 100)),
               passives_pct = (if dropna xs = [] then 0 else py_round 2 (of_int (n - p - d) / of_int n * 100)),
               n_responses = n \<rparr>)"
  by (simp add: npqs_of_recommendations_def pct_if_any_def truediv_def and_then_def Let_def)

lemma calculate_npqs_eq:
  "calculate_npqs xs =
     (if xs = [] then Inr npqs_empty_result
      else let p = int (count_where is_promoter xs); q = int (count_where is_passive xs);
               d = int (count_where is_detractor xs); n = int (length xs)
           in Inr \<lparr> npqs = py_round 2 (of_int (p - d) / of_int n * 100),
                    promoters = p, passives = q, detractors = d,
                    promoter_pct = Some (py_round 2 (of_int p / of_int n * 100)),
                    passive_pct = Some (py_round 2 (of_int q / of_int n * 100)),
                    detractor_pct = Some (py_round 2 (of_int d / of_int n * 100)) \<rparr>)"
  by (simp add: calculate_npqs_def pct_of_def truediv_def and_then_def Let_def)

text \<open>The score before rounding, for p promoters and d detractors among n counted entries.\<close>

lemma raw_score_bounds:
  fixes p d n :: nat
  assumes "p + d \<le> n" "0 < n"
  shows "- 100 \<le> (of_int (int p - int d) / of_int (int n) * 100 :: real)"
    and "(of_int (int p - int d) / of_int (int n) * 100 :: real) \<le> 100"
proof -
  have "- real n \<le> real p - real d" "real p - real d \<le> real n" using assms by linarith+
  then show "- 100 \<le> (of_int (int p - int d) / of_int (int n) * 100 :: real)"
    "(of_int (int p - int d) / of_int (int n) * 100 :: real) \<le> 100"
    using assms(2) by (simp_all add: field_simps)
qed

lemma raw_score_top:
  fixes p d n :: nat
  assumes "p + d \<le> n" "0 < n" "n < 20000"
  shows "99995 / 1000 \<le> (of_int (int p - int d) / of_int (int n) * 100 :: real) \<longleftrightarrow> p = n"
proof
  assume "p = n"
  then have "d = 0" using assms by simp
  then show "99995 / 1000 \<le> (of_int (int p - int d) / of_int (int n) * 100 :: real)"
    using \<open>p = n\<close> assms(2) by simp
next
  assume h: "99995 / 1000 \<le> (of_int (int p - int d) / of_int (int n) * 100 :: real)"
  then have "99995 * real n \<le> 100000 * (real p - real d)" using assms(2) by (simp add: field_simps)
  then have "real (99995 * n + 100000 * d) \<le> real (100000 * p)" by simp
  then have "99995 * n + 100000 * d \<le> 100000 * p" by (simp only: of_nat_le_iff)
  then show "p = n" using assms by linarith
qed

lemma raw_score_bottom:
  fixes p d n :: nat
  assumes "p + d \<le> n" "0 < n" "n < 20000"
  shows "(of_int (int p - int d) / of_int (int n) * 100 :: real) \<le> - 99995 / 1000 \<longleftrightarrow> d = n"
proof
  assume "d = n"
  then have "p = 0" using assms by simp
  then show "(of_int (int p - int d) / of_int (int n) * 100 :: real) \<le> - 99995 / 1000"
    using \<open>d = n\<close> assms(2) by simp
next
  assume h: "(of_int (int p - int d) / of_int (int n) * 100 :: real) \<le> - 99995 / 1000"
  then have "100000 * (real p - real d) \<le> - (99995 * real n)" using assms(2) by (simp add: field_simps)
  then have "real (99995 * n + 100000 * p) \<le> real (100000 * d)" by simp
  then have "99995 * n + 100000 * p \<le> 100000 * d" by (simp only: of_nat_le_iff)
  then show "d = n" using assms by linarith
qed



lemma npqs_of_recommendations_total: "\<exists>r. npqs_of_recommendations xs = Inr r"
  by (simp add: npqs_of_recommendations_eq Let_def)

lemma calculate_npqs_total: "\<exists>r. calculate_npqs xs = Inr r"
  by (simp add: calculate_npqs_eq Let_def)

lemma dropna_Nil_counts: "dropna xs = [] \<Longrightarrow> count_where P xs = 0"
  by (simp add: count_where_def)

lemma pipeline_score:
  assumes r: "npqs_of_recommendations xs = Inr r"
  shows "- 100 \<le> npqs_score r" and "npqs_score r \<le> 100"
    and "dropna xs = [] \<Longrightarrow> npqs_score r = 0"
    and "dropna xs \<noteq> [] \<Longrightarrow> all_promoters xs \<Longrightarrow> npqs_score r = 100"
    and "dropna xs \<noteq> [] \<Longrightarrow> all_detractors xs \<Longrightarrow> npqs_score r = - 100"
    and "length (dropna xs) < 20000 \<Longrightarrow> npqs_score r = 100 \<Longrightarrow> dropna xs \<noteq> [] \<and> all_promoters xs"
    and "length (dropna xs) < 20000 \<Longrightarrow> npqs_score r = - 100 \<Longrightarrow> dropna xs \<noteq> [] \<and> all_detractors xs"
proof -
  define p where "p = count_where is_promoter xs"
  define d where "d = count_where is_detractor xs"
  define n where "n = length (dropna xs)"
  define v :: real where "v = of_int (int p - int d) / of_int (int n) * 100"
  have pd: "p + d \<le> n" unfolding p_def d_def n_def by (rule promoters_detractors_le)
  have sc: "npqs_score r = (if dropna xs = [] then 0 else py_round 2 v)"
    using r unfolding npqs_of_recommendations_eq Let_def v_def p_def d_def n_def by auto
  have n0: "dropna xs \<noteq> [] \<longleftrightarrow> 0 < n" by (simp add: n_def)
  have vb: "0 < n \<Longrightarrow> - 100 \<le> v \<and> v \<le> 100"
    unfolding v_def using raw_score_bounds [OF pd] by simp
  have pall: "p = n \<longleftrightarrow> all_promoters xs"
    unfolding p_def n_def all_promoters_def by (rule count_where_all)
  have dall: "d = n \<longleftrightarrow> all_detractors xs"
    unfolding d_def n_def all_detractors_def by (rule count_where_all)
  show "- 100 \<le> npqs_score r" "npqs_score r \<le> 100"
    using sc vb n0 py_round_mono [of "- 100" v 2] py_round_mono [of v 100 2] by (auto split: if_splits)
  show "dropna xs = [] \<Longrightarrow> npqs_score r = 0" using sc by simp
  show "dropna xs \<noteq> [] \<Longrightarrow> all_promoters xs \<Longrightarrow> npqs_score r = 100"
  proof -
    assume a: "dropna xs \<noteq> []" "all_promoters xs"
    then have "p = n" "0 < n" using pall n0 by auto
    then have "d = 0" using pd by simp
    then have "v = 100" unfolding v_def using \<open>p = n\<close> \<open>0 < n\<close> by simp
    then show ?thesis using sc a by simp
  qed
  show "dropna xs \<noteq> [] \<Longrightarrow> all_detractors xs \<Longrightarrow> npqs_score r = - 100"
  proof -
    assume a: "dropna xs \<noteq> []" "all_detractors xs"
    then have "d = n" "0 < n" using dall n0 by auto
    then have "p = 0" using pd by simp
    then have "v = - 100" unfolding v_def using \<open>d = n\<close> \<open>0 < n\<close> by simp
    then show ?thesis using sc a by simp
  qed
  show "length (dropna xs) < 20000 \<Longrightarrow> npqs_score r = 100 \<Longrightarrow> dropna xs \<noteq> [] \<and> all_promoters xs"
  proof -
    assume a: "length (dropna xs) < 20000" "npqs_score r = 100"
    then have ne: "dropna xs \<noteq> []" using sc by (auto split: if_splits)
    then have "0 < n" using n0 by simp
    have "py_round 2 v = 100" using sc a ne by simp
    then have "99995 / 1000 \<le> v" using py_round2_eq_100 [of v] vb \<open>0 < n\<close> by simp
    then have "p = n" 
      unfolding v_def using raw_score_top [OF pd \<open>0 < n\<close>] a(1) n_def by simp
    then show ?thesis using ne pall by simp
  qed
  show "length (dropna xs) < 20000 \<Longrightarrow> npqs_score r = - 100 \<Longrightarrow> dropna xs \<noteq> [] \<and> all_detractors xs"
  proof -
    assume a: "length (dropna xs) < 20000" "npqs_score r = - 100"
    then have ne: "dropna xs \<noteq> []" using sc by (auto split: if_splits)
    then have "0 < n" using n0 by simp
    have "py_round 2 v = - 100" using sc a ne by simp
    then have "v \<le> - 99995 / 1000" using py_round2_eq_m100 [of v] vb \<open>0 < n\<close> by simp
    then have "d = n" 
      unfolding v_def using raw_score_bottom [OF pd \<open>0 < n\<close>] a(1) n_def by simp
    then show ?thesis using ne dall by simp
  qed
qed



lemma dropna_full: "length (dropna xs) = length xs \<longleftrightarrow> None \<notin> set xs"
proof (induction xs rule: dropna.induct)
  case (2 xs)
  have "length (dropna xs) \<le> length xs" by (rule length_dropna_le)
  then show ?case by simp
qed auto

lemma scorer_score:
  assumes s: "calculate_npqs xs = Inr s"
  shows "- 100 \<le> npqs s" and "npqs s \<le> 100"
    and "dropna xs = [] \<Longrightarrow> npqs s = 0"
    and "xs \<noteq> [] \<Longrightarrow> None \<notin> set xs \<Longrightarrow> all_promoters xs \<Longrightarrow> npqs s = 100"
    and "xs \<noteq> [] \<Longrightarrow> None \<notin> set xs \<Longrightarrow> all_detractors xs \<Longrightarrow> npqs s = - 100"
    and "length xs < 20000 \<Longrightarrow> npqs s = 100 \<Longrightarrow> xs \<noteq> [] \<and> None \<notin> set xs \<and> all_promoters xs"
    and "length xs < 20000 \<Longrightarrow> npqs s = - 100 \<Longrightarrow> xs \<noteq> [] \<and> None \<notin> set xs \<and> all_detractors xs"
proof -
  define p where "p = count_where is_promoter xs"
  define d where "d = count_where is_detractor xs"
  define n where "n = length xs"
  define m where "m = length (dropna xs)"
  define v :: real where "v = of_int (int p - int d) / of_int (int n) * 100"
  have pdm: "p + d \<le> m" unfolding p_def d_def m_def by (rule promoters_detractors_le)
  have mn: "m \<le> n" unfolding m_def n_def by (rule length_dropna_le)
  have pd: "p + d \<le> n" using pdm mn by simp
  have sc: "npqs s = (if xs = [] then 0 else py_round 2 v)"
    using s unfolding calculate_npqs_eq Let_def v_def p_def d_def n_def
    by (auto simp: npqs_empty_result_def split: if_splits)
  have n0: "xs \<noteq> [] \<longleftrightarrow> 0 < n" by (simp add: n_def)
  have vb: "0 < n \<Longrightarrow> - 100 \<le> v \<and> v \<le> 100"
    unfolding v_def using raw_score_bounds [OF pd] by simp
  have pall: "p = m \<longleftrightarrow> all_promoters xs"
    unfolding p_def m_def all_promoters_def by (rule count_where_all)
  have dall: "d = m \<longleftrightarrow> all_detractors xs"
    unfolding d_def m_def all_detractors_def by (rule count_where_all)
  have full: "m = n \<longleftrightarrow> None \<notin> set xs" unfolding m_def n_def by (rule dropna_full)
  show "- 100 \<le> npqs s" "npqs s \<le> 100"
    using sc vb n0 py_round_mono [of "- 100" v 2] py_round_mono [of v 100 2] by (auto split: if_splits)
  show "dropna xs = [] \<Longrightarrow> npqs s = 0"
  proof -
    assume "dropna xs = []"
    then have "p = 0" "d = 0" unfolding p_def d_def by (simp_all add: dropna_Nil_counts)
    then have "v = 0" unfolding v_def by simp
    then show ?thesis using sc by simp
  qed
  show "xs \<noteq> [] \<Longrightarrow> None \<notin> set xs \<Longrightarrow> all_promoters xs \<Longrightarrow> npqs s = 100"
  proof -
    assume a: "xs \<noteq> []" "None \<notin> set xs" "all_promoters xs"
    then have "p = n" "0 < n" using pall n0 full by auto
    then have "d = 0" using pd by simp
    then have "v = 100" unfolding v_def using \<open>p = n\<close> \<open>0 < n\<close> by simp
    then show ?thesis using sc a by simp
  qed
  show "xs \<noteq> [] \<Longrightarrow> None \<notin> set xs \<Longrightarrow> all_detractors xs \<Longrightarrow> npqs s = - 100"
  proof -
    assume a: "xs \<noteq> []" "None \<notin> set xs" "all_detractors xs"
    then have "d = n" "0 < n" using dall n0 full by auto
    then have "p = 0" using pd by simp
    then have "v = - 100" unfolding v_def using \<open>d = n\<close> \<open>0 < n\<close> by simp
    then show ?thesis using sc a by simp
  qed
  show "length xs < 20000 \<Longrightarrow> npqs s = 100 \<Longrightarrow> xs \<noteq> [] \<and> None \<notin> set xs \<and> all_promoters xs"
  proof -
    assume a: "length xs < 20000" "npqs s = 100"
    then have ne: "xs \<noteq> []" using sc by (auto split: if_splits)
    then have "0 < n" using n0 by simp
    have "py_round 2 v = 100" using sc a ne by simp
    then have "99995 / 1000 \<le> v" using py_round2_eq_100 [of v] vb \<open>0 < n\<close> by simp
    then have "p = n" 
      unfolding v_def using raw_score_top [OF pd \<open>0 < n\<close>] a(1) n_def by simp
    then have "m = n" "p = m" using pdm mn by auto
    then show ?thesis using ne pall full by simp
  qed
  show "length xs < 20000 \<Longrightarrow> npqs s = - 100 \<Longrightarrow> xs \<noteq> [] \<and> None \<notin> set xs \<and> all_detractors xs"
  proof -
    assume a: "length xs < 20000" "npqs s = - 100"
    then have ne: "xs \<noteq> []" using sc by (auto split: if_splits)
    then have "0 < n" using n0 by simp
    have "py_round 2 v = - 100" using sc a ne by simp
    then have "v \<le> - 99995 / 1000" using py_round2_eq_m100 [of v] vb \<open>0 < n\<close> by simp
    then have "d = n" 
      unfolding v_def using raw_score_bottom [OF pd \<open>0 < n\<close>] a(1) n_def by simp
    then have "m = n" "d = m" using pdm mn by auto
    then show ?thesis using ne dall full by simp
  qed
qed

lemma dropna_replicate_Some [simp]: "dropna (replicate k (Some v) @ ys) = replicate k v @ dropna ys"
  by (induction k) auto

section \<open>Facts about Cronbach's alpha in \<open>PsychometricValidator\<close>\<close>

text \<open>
  \<open>_calculate_cronbach_alpha\<close> always returns a finite, non-negative value, and 0 for fewer
  than two items or a zero variance of the row sums; the entry that \<open>assess_reliability\<close>
  reports for a dimension inherits both, and is not acceptable at 0 under a positive
  threshold.
\<close>


lemma py_max0_Fin_nonneg: "\<exists>a. py_max0 x = Fin a \<and> 0 \<le> a" if "x \<noteq> PInf"
  using that by (cases x) (auto simp: py_max0_def)

lemma alpha_formula_finite:
  assumes "2 \<le> length (columns data)" and "series_var (row_sums data) \<noteq> Some 0"
  shows "\<exists>x. alpha_formula data = Inr x \<and> x \<noteq> PInf \<and> x \<noteq> NInf"
proof (cases "series_var (row_sums data)")
  case None
  then show ?thesis using assms(1)
    by (simp add: alpha_formula_def truediv_def and_then_def np_sub_def)
next
  case (Some t)
  then have "t \<noteq> 0" using assms(2) by simp
  then show ?thesis using assms(1) Some
    by (simp add: alpha_formula_def truediv_def and_then_def np_sub_def)
qed

lemma calculate_cronbach_alpha_nonneg:
  "\<exists>a. calculate_cronbach_alpha data = Inr (Fin a) \<and> 0 \<le> a"
proof (cases "df_empty data \<or> length (columns data) < 2 \<or> series_var (row_sums data) = Some 0")
  case True
  then show ?thesis by (auto simp: calculate_cronbach_alpha_def)
next
  case False
  then have "2 \<le> length (columns data)" "series_var (row_sums data) \<noteq> Some 0" by auto
  then obtain x where x: "alpha_formula data = Inr x" "x \<noteq> PInf"
    using alpha_formula_finite by blast
  obtain a where "py_max0 x = Fin a" "0 \<le> a" using py_max0_Fin_nonneg [OF x(2)] by blast
  then show ?thesis using False x(1) by (simp add: calculate_cronbach_alpha_def and_then_def)
qed

lemma calculate_cronbach_alpha_degenerate:
  "length (columns data) < 2 \<or> series_var (row_sums data) = Some 0
     \<Longrightarrow> calculate_cronbach_alpha data = Inr (Fin 0)"
  by (auto simp: calculate_cronbach_alpha_def)

lemma py_round_nonneg: "0 \<le> a \<Longrightarrow> 0 \<le> py_round k a"
  using py_round_mono [of 0 a k] by simp

lemma alpha_entry_of_nonneg:
  "\<exists>e a. alpha_entry_of self data items = Inr e \<and> alpha_value e = Fin a \<and> 0 \<le> a"
proof -
  obtain a where a: "calculate_cronbach_alpha (select_columns data items) = Inr (Fin a)" "0 \<le> a"
    using calculate_cronbach_alpha_nonneg by blast
  then show ?thesis by (simp add: alpha_entry_of_def and_then_def py_round_nonneg)
qed

lemma alpha_entry_of_degenerate:
  assumes "length items < 2 \<or> series_var (row_sums (select_columns data items)) = Some 0"
    and "0 < alpha_threshold self"
  shows "\<exists>e. alpha_entry_of self data items = Inr e \<and> alpha_value e = Fin 0 \<and> \<not> acceptable e"
proof -
  have "length (columns (select_columns data items)) = length items"
    by (simp add: select_columns_def)
  then have "calculate_cronbach_alpha (select_columns data items) = Inr (Fin 0)"
    using assms(1) calculate_cronbach_alpha_degenerate [of "select_columns data items"] by auto
  then show ?thesis using assms(2) by (simp add: alpha_entry_of_def and_then_def)
qed

lemma cronbach_alpha_entries_nonneg:
  "\<exists>es. cronbach_alpha_entries self data dims = Inr es
     \<and> list_all (\<lambda>e. \<exists>a. alpha_value (snd e) = Fin a \<and> 0 \<le> a) es"
proof (induction dims)
  case Nil
  then show ?case by simp
next
  case (Cons d dims)
  obtain dimension items where d: "d = (dimension, items)" by (cases d)
  obtain es where es: "cronbach_alpha_entries self data dims = Inr es"
    "list_all (\<lambda>e. \<exists>a. alpha_value (snd e) = Fin a \<and> 0 \<le> a) es"
    using Cons.IH by blast
  obtain e a where e: "alpha_entry_of self data items = Inr e" "alpha_value e = Fin a" "0 \<le> a"
    using alpha_entry_of_nonneg by blast
  show ?case using d es e by (simp add: and_then_def)
qed

lemma scenario_C_psychometric:
  "alpha_entry_of \<lparr>alpha_threshold = 7 / 10, ave_threshold = 1 / 2\<rparr>
     \<lparr>nrows = 3, columns = [(''a'', [Some 3, Some 3, Some 3]), (''b'', [Some 3, Some 3, Some 3])]\<rparr>
     [''a'', ''b'']
   = Inr \<lparr>alpha_value = Fin 0, acceptable = False, n_items = 2\<rparr>"
  by code_simp


section \<open>Facts about the sample adequacy\<close>

lemma assess_sample_adequacy_with_items:
  assumes "columns data \<noteq> []"
  shows "assess_sample_adequacy data =
     Inr \<lparr> sa_n_responses = int (nrows data), sa_n_items = int (length (columns data)),
           ratio = py_round 2 (real (nrows data) / real (length (columns data))),
           adequacy_5_1 = (5 * length (columns data) \<le> nrows data),
           adequacy_10_1 = (10 * length (columns data) \<le> nrows data),
           kline_adequate = (20 * length (columns data) \<le> nrows data),
           recommended_minimum = max 200 (10 * int (length (columns data))) \<rparr>"
proof -
  have "(k * int (length (columns data)) \<le> int (nrows data)) = (nat k * length (columns data) \<le> nrows data)"
    if "0 \<le> k" for k :: int
  proof -
    have "k * int (length (columns data)) = int (nat k * length (columns data))" using that by simp
    then show ?thesis by (simp only: of_nat_le_iff)
  qed
  from this [of 5] this [of 10] this [of 20] show ?thesis
    using assms by (simp add: assess_sample_adequacy_def truediv_def and_then_def Let_def)
qed

lemma assess_sample_adequacy_without_items:
  "columns data = [] \<Longrightarrow> assess_sample_adequacy data = Inl ZeroDivisionError"
  by (simp add: assess_sample_adequacy_def truediv_def and_then_def Let_def)

lemma scenario_D:
  "assess_sample_adequacy \<lparr>nrows = 50, columns = replicate 10 (''i'', replicate 50 (Some 3))\<rparr>
   = Inr \<lparr> sa_n_responses = 50, sa_n_items = 10, ratio = 5, adequacy_5_1 = True,
           adequacy_10_1 = False, kline_adequate = False, recommended_minimum = 200 \<rparr>"
  by (simp add: assess_sample_adequacy_with_items)

section \<open>Facts about means and dimension scores\<close>


lemma sum_list_bounds:
  fixes vs :: "real list"
  assumes "\<And>v. v \<in> set vs \<Longrightarrow> lo \<le> v \<and> v \<le> hi"
  shows "lo * of_nat (length vs) \<le> sum_list vs \<and> sum_list vs \<le> hi * of_nat (length vs)"
  using assms
proof (induction vs)
  case Nil
  then show ?case by simp
next
  case (Cons v vs)
  have "lo \<le> v \<and> v \<le> hi" using Cons.prems by simp
  moreover have "lo * of_nat (length vs) \<le> sum_list vs \<and> sum_list vs \<le> hi * of_nat (length vs)"
    using Cons by simp
  ultimately show ?case by (simp add: algebra_simps)
qed

lemma mean_list_bounds:
  fixes vs :: "real list"
  assumes "vs \<noteq> []" and "\<And>v. v \<in> set vs \<Longrightarrow> lo \<le> v \<and> v \<le> hi"
  shows "lo \<le> mean_list vs \<and> mean_list vs \<le> hi"
proof -
  have n: "0 < real (length vs)" using assms(1) by simp
  have "lo * real (length vs) \<le> sum_list vs \<and> sum_list vs \<le> hi * real (length vs)"
    using sum_list_bounds [of vs lo hi] assms(2) by simp
  then show ?thesis using n by (simp add: mean_list_def field_simps)
qed

lemma set_dropna: "set (dropna xs) = {v. Some v \<in> set xs}"
  by (induction xs rule: dropna.induct) auto

lemma series_mean_bounds:
  assumes "series_mean xs = Some m" and "\<And>v. Some v \<in> set xs \<Longrightarrow> lo \<le> v \<and> v \<le> hi"
  shows "lo \<le> m \<and> m \<le> hi"
proof -
  have ne: "dropna xs \<noteq> []" and m: "m = mean_list (dropna xs)"
    using assms(1) by (auto simp: series_mean_def split: if_splits)
  have "\<And>v. v \<in> set (dropna xs) \<Longrightarrow> lo \<le> v \<and> v \<le> hi" using assms(2) by (simp add: set_dropna)
  then show ?thesis using mean_list_bounds [OF ne] m by blast
qed

lemma dropna_map_scale: "dropna (map (map_option (\<lambda>m. m * c)) xs) = map (\<lambda>m. m * c) (dropna xs)"
  by (induction xs rule: dropna.induct) auto

lemma series_mean_scale:
  "series_mean (map (map_option (\<lambda>m. m * c)) xs) = map_option (\<lambda>m. m * c) (series_mean xs)"
proof -
  have "sum_list (map (\<lambda>m. m * c) vs) = sum_list vs * c" for vs :: "real list"
    by (induction vs) (auto simp: algebra_simps)
  then show ?thesis by (simp add: series_mean_def dropna_map_scale mean_list_def)
qed

text \<open>A value of a selected column is a value of the data.\<close>

lemma selected_value_on_scale:
  assumes wf: "wf_dataframe data" and sc: "on_scale lo hi data"
    and it: "has_columns data items" and i: "i < nrows data"
    and v: "Some v \<in> set (row (select_columns data items) i)"
  shows "lo \<le> v \<and> v \<le> hi"
proof -
  obtain item where item: "item \<in> set items" and vi: "the (map_of (columns data) item) ! i = Some v"
    using v by (auto simp: row_def select_columns_def)
  have "item \<in> fst ` set (columns data)" using it item by (auto simp: has_columns_def list_all_iff)
  then obtain col where col: "map_of (columns data) item = Some col"
    by (metis domD dom_map_of_conv_image_fst)
  then have mem: "(item, col) \<in> set (columns data)" by (rule map_of_SomeD)
  then have "length col = nrows data" using wf by (auto simp: wf_dataframe_def list_all_iff)
  then have "Some v \<in> set col" using vi col i by (metis nth_mem option.sel)
  then have "v \<in> set (dropna col)" by (simp add: set_dropna)
  then show ?thesis using sc mem by (auto simp: on_scale_def list_all_iff)
qed

lemma row_mean_on_scale:
  assumes "wf_dataframe data" "on_scale lo hi data" "has_columns data items"
    and "Some m \<in> set (row_means (select_columns data items))"
  shows "lo \<le> m \<and> m \<le> hi"
proof -
  obtain i where i: "i < nrows data" and m: "series_mean (row (select_columns data items) i) = Some m"
    using assms(4) by (auto simp: row_means_def select_columns_def)
  show ?thesis
    using series_mean_bounds [OF m] selected_value_on_scale [OF assms(1-3) i] by blast
qed

lemma dimension_score_of_on_scale:
  assumes "wf_dataframe data" "on_scale 1 5 data" "has_columns data items"
  shows "list_all (\<lambda>s. 0 \<le> s \<and> s \<le> 100) (dropna (individual_scores (dimension_score_of data items)))"
    and "mean_score (dimension_score_of data items) = Some a \<Longrightarrow> 0 \<le> a \<and> a \<le> 100"
proof -
  let ?ms = "row_means (select_columns data items)"
  let ?sc = "map (map_option (\<lambda>m. m * 20)) ?ms"
  have sc: "individual_scores (dimension_score_of data items) = ?sc"
    by (simp add: dimension_score_of_def Let_def)
  have rng: "\<And>s. Some s \<in> set ?sc \<Longrightarrow> 0 \<le> s \<and> s \<le> 100"
  proof -
    fix s assume "Some s \<in> set ?sc"
    then obtain m where "Some m \<in> set ?ms" "s = m * 20" by (auto simp: map_option_case split: option.splits)
    then show "0 \<le> s \<and> s \<le> 100" using row_mean_on_scale [OF assms, of m] by simp
  qed
  show "list_all (\<lambda>s. 0 \<le> s \<and> s \<le> 100) (dropna (individual_scores (dimension_score_of data items)))"
    unfolding sc list_all_iff using rng by (simp add: set_dropna)
  show "mean_score (dimension_score_of data items) = Some a \<Longrightarrow> 0 \<le> a \<and> a \<le> 100"
  proof -
    assume "mean_score (dimension_score_of data items) = Some a"
    then obtain b where b: "series_mean ?sc = Some b" and a: "a = py_round 2 b"
      by (auto simp: dimension_score_of_def Let_def)
    have "0 \<le> b \<and> b \<le> 100" using series_mean_bounds [OF b] rng by blast
    then show ?thesis using a py_round_mono [of 0 b 2] py_round_mono [of b 100 2] by simp
  qed
qed

text \<open>Which respondents have a score, and when the mean score exists.\<close>


lemma length_row_means: "length (row_means df) = nrows df"
  by (simp add: row_means_def)

lemma nth_row_means: "i < nrows df \<Longrightarrow> row_means df ! i = series_mean (row df i)"
  by (simp add: row_means_def)

lemma series_mean_None: "series_mean xs = None \<longleftrightarrow> dropna xs = []"
  by (simp add: series_mean_def)

lemma dropna_Nil_iff: "dropna xs = [] \<longleftrightarrow> (\<forall>x \<in> set xs. x = None)"
  by (induction xs rule: dropna.induct) auto

lemma row_means_all_missing:
  "dropna (row_means df) = [] \<longleftrightarrow> (\<forall>i < nrows df. dropna (row df i) = [])"
proof -
  have "dropna (row_means df) = [] \<longleftrightarrow> (\<forall>i < nrows df. row_means df ! i = None)"
    unfolding dropna_Nil_iff using length_row_means [of df]
    by (metis in_set_conv_nth)
  then show ?thesis by (simp add: nth_row_means series_mean_None)
qed

section \<open>Facts about the discriminant validity\<close>





text \<open>Assignments to a dict.\<close>

lemma dict_set_keys: "fst ` set (dict_set k v d) = insert k (fst ` set d)"
  by (induction d) auto

lemma dict_set_subset: "set (dict_set k v d) \<subseteq> insert (k, v) (set d)"
  by (induction d) auto




lemma fold_pair_step_keys:
  "fst ` set (foldl (pair_step data) d ps) =
     fst ` set d \<union> (\<lambda>p. fst (pair_entry data p)) ` {p \<in> set ps. scored_pair data p}"
  by (induction ps arbitrary: d) (auto simp: pair_step_def dict_set_keys)

lemma fold_pair_step_subset:
  "set (foldl (pair_step data) d ps) \<subseteq> set d \<union> pair_entry data ` {p \<in> set ps. scored_pair data p}"
proof (induction ps arbitrary: d)
  case Nil
  then show ?case by simp
next
  case (Cons p ps)
  have "set (pair_step data d p) \<subseteq> set d \<union> (if scored_pair data p then {pair_entry data p} else {})"
    using dict_set_subset [of "fst (pair_entry data p)" "snd (pair_entry data p)" d]
    by (auto simp: pair_step_def)
  then show ?case using Cons.IH [of "pair_step data d p"] by (auto split: if_splits)
qed



lemma correlations_subset:
  "set (inter_dimension_correlations (assess_discriminant_validity data structure)) \<subseteq>
     pair_entry data ` {p \<in> set (List.product structure structure). scored_pair data p}"
  using fold_pair_step_subset [of data "[]" "List.product structure structure"]
  by (simp add: assess_discriminant_validity_def Let_def)


section \<open>Facts about the maturity grid\<close>


lemma foldl_np_add_Fin: "foldl np_add (Fin a) (map Fin rs) = Fin (a + sum_list rs)"
  by (induction rs arbitrary: a) (auto simp: algebra_simps)

lemma np_sum_Fin: "np_sum (map Fin rs) = Fin (sum_list rs)"
  using foldl_np_add_Fin [of 0 rs] by (simp add: np_sum_def)

lemma calculate_maturity_empty:
  "df_empty responses \<Longrightarrow>
     calculate_maturity responses weights =
       Inr \<lparr> overall_maturity = Fin 0, overall_level = ''Initial/Ad-hoc'',
             dimension_scores = [], from_guard = True \<rparr>"
  by (simp add: calculate_maturity_def)

lemma calculate_maturity_unweighted:
  assumes "\<not> df_empty responses" and "scored_columns responses w = []"
  shows "calculate_maturity responses (Some w) = Inl ZeroDivisionError"
  using assms
  by (simp add: calculate_maturity_def weights_in_force_def total_weight_def overall_score_of_def
      truediv_def and_then_def Let_def)

text \<open>The reported weighted score of a column that has a valid response.\<close>

lemma weighted_score_finite:
  assumes "dropna col \<noteq> []"
  shows "weighted_score (dimension_maturity_of col x) = Fin (py_round 2 (mean_list (dropna col) * x))"
  using assms by (simp add: dimension_maturity_of_def series_mean_def Let_def)

lemma calculate_maturity_weighted_general:
  assumes "\<not> df_empty responses" and "scored_columns responses w \<noteq> []"
  shows "\<exists>r. calculate_maturity responses (Some w) = Inr r
     \<and> map fst (dimension_scores r) = map fst (scored_columns responses w)
     \<and> overall_maturity r =
         np_round 2 (np_div (np_sum (map (\<lambda>e. weighted_score (snd e)) (dimension_scores r)))
                            (Fin (total_weight responses w)))
     \<and> overall_level r =
         get_maturity_level (np_div (np_sum (map (\<lambda>e. weighted_score (snd e)) (dimension_scores r)))
                            (Fin (total_weight responses w)))"
  using assms
  by (simp add: calculate_maturity_def weights_in_force_def overall_score_of_def
      and_then_def Let_def comp_def)

lemma calculate_maturity_weighted_finite:
  assumes "\<not> df_empty responses" and "scored_columns responses w \<noteq> []"
    and "total_weight responses w \<noteq> 0"
    and "list_all (\<lambda>c. dropna (snd c) \<noteq> []) (scored_columns responses w)"
  shows "\<exists>r. calculate_maturity responses (Some w) = Inr r
     \<and> overall_maturity r =
         Fin (py_round 2
           ((\<Sum>c\<leftarrow>scored_columns responses w.
               py_round 2 (mean_list (dropna (snd c)) * the (map_of w (fst c))))
            / total_weight responses w))"
proof -
  let ?cs = "scored_columns responses w"
  let ?ws = "map (\<lambda>c. weighted_score (dimension_maturity_of (snd c) (the (map_of w (fst c))))) ?cs"
  have "?ws = map Fin (map (\<lambda>c. py_round 2 (mean_list (dropna (snd c)) * the (map_of w (fst c)))) ?cs)"
    using assms(4) by (simp add: list_all_iff weighted_score_finite)
  then have "np_sum ?ws = Fin (\<Sum>c\<leftarrow>?cs. py_round 2 (mean_list (dropna (snd c)) * the (map_of w (fst c))))"
    by (simp only: np_sum_Fin)
  then show ?thesis using assms(1-3)
    by (simp add: calculate_maturity_def weights_in_force_def overall_score_of_def
        and_then_def Let_def comp_def)
qed

text \<open>A total weight of zero under scored columns: numpy divides by zero.\<close>


lemma np_div_zero_not_finite:
  "np_div x (Fin 0) = NaN \<or> np_div x (Fin 0) = PInf \<or> np_div x (Fin 0) = NInf"
  by (cases x) (auto simp: inf_of_sign_def)

lemma np_round_not_finite:
  "x = NaN \<or> x = PInf \<or> x = NInf \<Longrightarrow> np_round k x = x"
  by auto

lemma get_maturity_level_not_finite:
  "get_maturity_level NaN = ''Initial/Ad-hoc''" "get_maturity_level NInf = ''Initial/Ad-hoc''"
  "get_maturity_level PInf = ''Optimizing''"
  by (simp_all add: get_maturity_level_def)

lemma calculate_maturity_zero_weight:
  assumes "\<not> df_empty responses" and "scored_columns responses w \<noteq> []"
    and "total_weight responses w = 0"
  shows "\<exists>r. calculate_maturity responses (Some w) = Inr r
     \<and> (overall_maturity r = NaN \<and> overall_level r = ''Initial/Ad-hoc''
        \<or> overall_maturity r = NInf \<and> overall_level r = ''Initial/Ad-hoc''
        \<or> overall_maturity r = PInf \<and> overall_level r = ''Optimizing'')"
proof -
  obtain r where r: "calculate_maturity responses (Some w) = Inr r"
    and om: "overall_maturity r =
         np_round 2 (np_div (np_sum (map (\<lambda>e. weighted_score (snd e)) (dimension_scores r)))
                            (Fin (total_weight responses w)))"
    and ol: "overall_level r =
         get_maturity_level (np_div (np_sum (map (\<lambda>e. weighted_score (snd e)) (dimension_scores r)))
                            (Fin (total_weight responses w)))"
    using calculate_maturity_weighted_general [OF assms(1,2)] by blast
  let ?q = "np_div (np_sum (map (\<lambda>e. weighted_score (snd e)) (dimension_scores r))) (Fin 0)"
  have "?q = NaN \<or> ?q = PInf \<or> ?q = NInf" by (rule np_div_zero_not_finite)
  then have "overall_maturity r = NaN \<and> overall_level r = ''Initial/Ad-hoc''
        \<or> overall_maturity r = NInf \<and> overall_level r = ''Initial/Ad-hoc''
        \<or> overall_maturity r = PInf \<and> overall_level r = ''Optimizing''"
    unfolding om ol assms(3) by (auto simp: get_maturity_level_not_finite)
  then show ?thesis using r by blast
qed

section \<open>Claims about the NPQS\<close>

lemma calculate_npqs_score_no_division_error:
  "calculate_npqs_score data \<noteq> Inl ZeroDivisionError"
proof (cases "filter (\<lambda>c. sublist ''recommend'' (fst c)) (columns data)")
  case Nil
  then show ?thesis by (simp add: calculate_npqs_score_def)
next
  case (Cons c cs)
  obtain r where "npqs_of_recommendations (snd (last (c # cs))) = Inr r"
    using npqs_of_recommendations_total by blast
  then show ?thesis using Cons by (simp add: calculate_npqs_score_def)
qed

text \<open>
  Claim C1, as the code has it. In \<open>calculate_npqs_score\<close> the denominator and the reported
  \<open>n_responses\<close> count the non-missing entries only, and with zero valid responses the score
  and the three percentages are 0; the method never ends in a division error, whatever the
  data frame. In \<open>calculate_npqs\<close> zero valid responses give the score 0 without a division
  error too; its three percentage fields are then 0 for a non-empty series and absent for
  the empty one.
\<close>

theorem npqs_zero_valid_responses:
  "(\<exists>r. npqs_of_recommendations xs = Inr r
        \<and> n_responses r = int (length (dropna xs))
        \<and> npqs_score r =
            (if dropna xs = [] then 0
             else py_round 2 (of_int (int (count_where is_promoter xs) - int (count_where is_detractor xs))
                              / of_int (int (length (dropna xs))) * 100))
        \<and> (dropna xs = [] \<longrightarrow>
             npqs_score r = 0 \<and> promoters_pct r = 0 \<and> passives_pct r = 0 \<and> detractors_pct r = 0))
   \<and> calculate_npqs_score data \<noteq> Inl ZeroDivisionError
   \<and> (\<exists>s. calculate_npqs xs = Inr s
        \<and> (dropna xs = [] \<longrightarrow>
             npqs s = 0
             \<and> promoter_pct s = (if xs = [] then None else Some 0)
             \<and> passive_pct s = (if xs = [] then None else Some 0)
             \<and> detractor_pct s = (if xs = [] then None else Some 0)))"
proof (intro conjI)
  show "\<exists>r. npqs_of_recommendations xs = Inr r
        \<and> n_responses r = int (length (dropna xs))
        \<and> npqs_score r =
            (if dropna xs = [] then 0
             else py_round 2 (of_int (int (count_where is_promoter xs) - int (count_where is_detractor xs))
                              / of_int (int (length (dropna xs))) * 100))
        \<and> (dropna xs = [] \<longrightarrow>
             npqs_score r = 0 \<and> promoters_pct r = 0 \<and> passives_pct r = 0 \<and> detractors_pct r = 0)"
    by (simp add: npqs_of_recommendations_eq Let_def)
  show "calculate_npqs_score data \<noteq> Inl ZeroDivisionError"
    by (rule calculate_npqs_score_no_division_error)
  show "\<exists>s. calculate_npqs xs = Inr s
        \<and> (dropna xs = [] \<longrightarrow>
             npqs s = 0
             \<and> promoter_pct s = (if xs = [] then None else Some 0)
             \<and> passive_pct s = (if xs = [] then None else Some 0)
             \<and> detractor_pct s = (if xs = [] then None else Some 0))"
    by (simp add: calculate_npqs_eq Let_def npqs_empty_result_def dropna_Nil_counts)
qed

text \<open>The amended claim C1 at a column of two missing entries.\<close>

theorem npqs_zero_valid_responses_witness:
  "dropna [None, None] = []
   \<and> (\<exists>r. npqs_of_recommendations [None, None] = Inr r \<and> n_responses r = 0
          \<and> npqs_score r = 0 \<and> promoters_pct r = 0 \<and> passives_pct r = 0 \<and> detractors_pct r = 0)
   \<and> (\<exists>s. calculate_npqs [None, None] = Inr s \<and> npqs s = 0
          \<and> promoter_pct s = Some 0 \<and> passive_pct s = Some 0 \<and> detractor_pct s = Some 0)"
proof -
  have h: "dropna [None, None] = []" by simp
  show ?thesis
    using h npqs_zero_valid_responses [of "[None, None]" "\<lparr>nrows = 0, columns = []\<rparr>"]
    by auto
qed

text \<open>
  Claim C1 as it is written fails on \<open>calculate_npqs\<close>: the empty series has no percentage
  field at all (rather than three zeros), and the series \<open>[9, NaN]\<close>, whose only valid response
  is a promoter, is divided by 2, the missing entry included.
\<close>

theorem calculate_npqs_counts_missing_counterexample:
  "calculate_npqs [] =
     Inr \<lparr> npqs = 0, promoters = 0, passives = 0, detractors = 0,
           promoter_pct = None, passive_pct = None, detractor_pct = None \<rparr>
   \<and> dropna [Some 9, None] = [9]
   \<and> calculate_npqs [Some 9, None] =
     Inr \<lparr> npqs = 50, promoters = 1, passives = 0, detractors = 0,
           promoter_pct = Some 50, passive_pct = Some 0, detractor_pct = Some 0 \<rparr>"
  by (simp add: calculate_npqs_eq npqs_empty_result_def Let_def count_where_def
      is_promoter_def is_passive_def is_detractor_def)

text \<open>
  Claim C3, as the code has it. Both scores lie in \<open>[-100, 100]\<close> and are 0 when no response
  is valid. With at least one valid response, \<open>calculate_npqs_score\<close> reports 100 if every valid
  response is a promoter and \<open>-100\<close> if every one is a detractor, and so does \<open>calculate_npqs\<close>
  on a column without missing entries. The converse holds below 20000 counted entries: the
  score is rounded to two decimals, so only there does 100 (or \<open>-100\<close>) force every valid
  response to be a promoter (a detractor).
\<close>

theorem npqs_range_and_extremes:
  "\<exists>r s. npqs_of_recommendations xs = Inr r \<and> calculate_npqs xs = Inr s
     \<and> - 100 \<le> npqs_score r \<and> npqs_score r \<le> 100 \<and> - 100 \<le> npqs s \<and> npqs s \<le> 100
     \<and> (dropna xs = [] \<longrightarrow> npqs_score r = 0 \<and> npqs s = 0)
     \<and> (dropna xs \<noteq> [] \<and> all_promoters xs \<longrightarrow>
          npqs_score r = 100 \<and> (None \<notin> set xs \<longrightarrow> npqs s = 100))
     \<and> (dropna xs \<noteq> [] \<and> all_detractors xs \<longrightarrow>
          npqs_score r = - 100 \<and> (None \<notin> set xs \<longrightarrow> npqs s = - 100))
     \<and> (length (dropna xs) < 20000 \<and> npqs_score r = 100 \<longrightarrow> dropna xs \<noteq> [] \<and> all_promoters xs)
     \<and> (length (dropna xs) < 20000 \<and> npqs_score r = - 100 \<longrightarrow> dropna xs \<noteq> [] \<and> all_detractors xs)
     \<and> (length xs < 20000 \<and> npqs s = 100 \<longrightarrow> dropna xs \<noteq> [] \<and> all_promoters xs)
     \<and> (length xs < 20000 \<and> npqs s = - 100 \<longrightarrow> dropna xs \<noteq> [] \<and> all_detractors xs)"
proof -
  obtain r where r: "npqs_of_recommendations xs = Inr r"
    using npqs_of_recommendations_total by blast
  obtain s where s: "calculate_npqs xs = Inr s"
    using calculate_npqs_total by blast
  have ne: "dropna xs \<noteq> [] \<Longrightarrow> xs \<noteq> []" by auto
  have full: "xs \<noteq> [] \<Longrightarrow> None \<notin> set xs \<Longrightarrow> dropna xs \<noteq> []"
    using dropna_full [of xs] by auto
  note P = pipeline_score [OF r]
  note S = scorer_score [OF s]
  have "- 100 \<le> npqs_score r \<and> npqs_score r \<le> 100 \<and> - 100 \<le> npqs s \<and> npqs s \<le> 100"
    using P(1,2) S(1,2) by simp
  moreover have "dropna xs = [] \<longrightarrow> npqs_score r = 0 \<and> npqs s = 0"
    using P(3) S(3) by simp
  moreover have "dropna xs \<noteq> [] \<and> all_promoters xs \<longrightarrow>
          npqs_score r = 100 \<and> (None \<notin> set xs \<longrightarrow> npqs s = 100)"
    using P(4) S(4) ne by blast
  moreover have "dropna xs \<noteq> [] \<and> all_detractors xs \<longrightarrow>
          npqs_score r = - 100 \<and> (None \<notin> set xs \<longrightarrow> npqs s = - 100)"
    using P(5) S(5) ne by blast
  moreover have "length (dropna xs) < 20000 \<and> npqs_score r = 100 \<longrightarrow> dropna xs \<noteq> [] \<and> all_promoters xs"
    using P(6) by blast
  moreover have "length (dropna xs) < 20000 \<and> npqs_score r = - 100 \<longrightarrow> dropna xs \<noteq> [] \<and> all_detractors xs"
    using P(7) by blast
  moreover have "length xs < 20000 \<and> npqs s = 100 \<longrightarrow> dropna xs \<noteq> [] \<and> all_promoters xs"
    using S(6) full by blast
  moreover have "length xs < 20000 \<and> npqs s = - 100 \<longrightarrow> dropna xs \<noteq> [] \<and> all_detractors xs"
    using S(7) full by blast
  ultimately show ?thesis using r s by blast
qed

text \<open>The amended claim C3 at a column of promoters, a column of detractors and a column
  with no valid response.\<close>

theorem npqs_range_and_extremes_witness:
  "(dropna [Some 9, Some 10] \<noteq> [] \<and> all_promoters [Some 9, Some 10] \<and> None \<notin> set [Some 9, Some (10::real)]
     \<and> (\<exists>r s. npqs_of_recommendations [Some 9, Some 10] = Inr r \<and> calculate_npqs [Some 9, Some 10] = Inr s
           \<and> npqs_score r = 100 \<and> npqs s = 100))
   \<and> (dropna [Some 6, Some 0] \<noteq> [] \<and> all_detractors [Some 6, Some 0] \<and> None \<notin> set [Some 6, Some (0::real)]
     \<and> (\<exists>r s. npqs_of_recommendations [Some 6, Some 0] = Inr r \<and> calculate_npqs [Some 6, Some 0] = Inr s
           \<and> npqs_score r = - 100 \<and> npqs s = - 100))
   \<and> (dropna [None] = []
     \<and> (\<exists>r s. npqs_of_recommendations [None] = Inr r \<and> calculate_npqs [None] = Inr s
           \<and> npqs_score r = 0 \<and> npqs s = 0))"
proof -
  have a: "dropna [Some 9, Some 10] \<noteq> [] \<and> all_promoters [Some 9, Some 10] \<and> None \<notin> set [Some 9, Some (10::real)]"
    by (simp add: all_promoters_def is_promoter_def)
  have b: "dropna [Some 6, Some 0] \<noteq> [] \<and> all_detractors [Some 6, Some 0] \<and> None \<notin> set [Some 6, Some (0::real)]"
    by (simp add: all_detractors_def is_detractor_def)
  have c: "dropna [None] = []" by simp
  have "\<exists>r s. npqs_of_recommendations [Some 9, Some 10] = Inr r \<and> calculate_npqs [Some 9, Some 10] = Inr s
           \<and> npqs_score r = 100 \<and> npqs s = 100"
    using a npqs_range_and_extremes [of "[Some 9, Some 10]"] by blast
  moreover have "\<exists>r s. npqs_of_recommendations [Some 6, Some 0] = Inr r \<and> calculate_npqs [Some 6, Some 0] = Inr s
           \<and> npqs_score r = - 100 \<and> npqs s = - 100"
    using b npqs_range_and_extremes [of "[Some 6, Some 0]"] by blast
  moreover have "\<exists>r s. npqs_of_recommendations [None] = Inr r \<and> calculate_npqs [None] = Inr s
           \<and> npqs_score r = 0 \<and> npqs s = 0"
    using c npqs_range_and_extremes [of "[None]"] by blast
  ultimately show ?thesis using a b c by blast
qed

text \<open>
  Claim C3 as it is written fails: of 40000 valid responses, 39999 promoters and one passive
  give 99.9975, which is reported as 100.
\<close>

theorem npqs_rounds_to_100_counterexample:
  "npqs_of_recommendations (replicate 39999 (Some 9) @ [Some 7]) =
     Inr \<lparr> npqs_score = 100, promoters_pct = 100, detractors_pct = 0, passives_pct = 0,
           n_responses = 40000 \<rparr>
   \<and> \<not> all_promoters (replicate 39999 (Some 9) @ [Some 7])"
  by (simp add: npqs_of_recommendations_eq Let_def count_where_def is_promoter_def is_detractor_def
      py_round_def rint_def all_promoters_def)


text \<open>
  Claim C10. On the empty series \<open>calculate_npqs\<close> returns the score 0 and three counts 0 and
  no percentage field; on every other series the three percentage fields are present.
\<close>

theorem calculate_npqs_empty_series:
  "calculate_npqs [] =
     Inr \<lparr> npqs = 0, promoters = 0, passives = 0, detractors = 0,
           promoter_pct = None, passive_pct = None, detractor_pct = None \<rparr>
   \<and> (\<exists>r. calculate_npqs xs = Inr r
          \<and> (promoter_pct r = None) = (xs = [])
          \<and> (passive_pct r = None) = (xs = [])
          \<and> (detractor_pct r = None) = (xs = []))"
  by (simp add: calculate_npqs_eq npqs_empty_result_def Let_def)

section \<open>Claims about reliability, sample adequacy and maturity levels\<close>

text \<open>
  Claim C2 at \<open>StatisticalValidator.calculate_reliability\<close>, which neither clamps the
  coefficient nor guards the zero variance of the row sums, as its sibling
  \<open>PsychometricValidator._calculate_cronbach_alpha\<close> does. Two items \<open>[1, 2, 3]\<close> and
  \<open>[3, 2, 2]\<close> are reported with alpha \<open>-6\<close>; two items constant at 3 (scenario C of the
  specification) are reported with alpha NaN instead of 0.
\<close>

theorem calculate_reliability_not_clamped:
  "calculate_reliability \<lparr>alpha_threshold = 7 / 10, ave_threshold = 1 / 2\<rparr>
     \<lparr>nrows = 3, columns = [(''a'', [Some 1, Some 2, Some 3]), (''b'', [Some 3, Some 2, Some 2])]\<rparr>
   = Inr \<lparr>cronbach_alpha = Fin (- 6), reliable = False, rel_n_items = Some 2, rel_n_responses = Some 3\<rparr>
   \<and> calculate_reliability \<lparr>alpha_threshold = 7 / 10, ave_threshold = 1 / 2\<rparr>
     \<lparr>nrows = 3, columns = [(''a'', [Some 3, Some 3, Some 3]), (''b'', [Some 3, Some 3, Some 3])]\<rparr>
   = Inr \<lparr>cronbach_alpha = NaN, reliable = False, rel_n_items = Some 2, rel_n_responses = Some 3\<rparr>"
  by code_simp

text \<open>
  Claim C5 at a frame of three rows and no column: the ratio \<open>n_responses / n_items\<close> is a
  division of Python ints by zero, so the method raises instead of returning a result.
\<close>

theorem assess_sample_adequacy_no_columns:
  "assess_sample_adequacy \<lparr>nrows = 3, columns = []\<rparr> = Inl ZeroDivisionError"
  by (simp add: assess_sample_adequacy_def truediv_def and_then_def Let_def)


text \<open>
  Claim C6. Each level of either scale is the set of scores from its threshold (included) up
  to the next threshold (excluded), so every finite score has exactly one level and a score
  on a threshold has the higher one: 4.5, 3.5, 2.5 and 1.5 on the scale from 1 to 5, where
  the label at the k-th threshold is entry k + 1 of the table \<open>levels\<close>, and 80, 60 and 40
  on the scale from 0 to 100.
\<close>

theorem maturity_level_thresholds:
  "(get_maturity_level (Fin s) = ''Optimizing'') = (45 / 10 \<le> s)
   \<and> (get_maturity_level (Fin s) = ''Quantitatively Managed'') = (35 / 10 \<le> s \<and> s < 45 / 10)
   \<and> (get_maturity_level (Fin s) = ''Defined'') = (25 / 10 \<le> s \<and> s < 35 / 10)
   \<and> (get_maturity_level (Fin s) = ''Managed'') = (15 / 10 \<le> s \<and> s < 25 / 10)
   \<and> (get_maturity_level (Fin s) = ''Initial/Ad-hoc'') = (s < 15 / 10)
   \<and> levels 5 = Some (get_maturity_level (Fin (45 / 10)))
   \<and> levels 4 = Some (get_maturity_level (Fin (35 / 10)))
   \<and> levels 3 = Some (get_maturity_level (Fin (25 / 10)))
   \<and> levels 2 = Some (get_maturity_level (Fin (15 / 10)))
   \<and> (calculate_maturity_level (Fin t) = Excellence) = (80 \<le> t)
   \<and> (calculate_maturity_level (Fin t) = Amelioration) = (60 \<le> t \<and> t < 80)
   \<and> (calculate_maturity_level (Fin t) = Developpement) = (40 \<le> t \<and> t < 60)
   \<and> (calculate_maturity_level (Fin t) = Initial) = (t < 40)"
  by (auto simp: get_maturity_level_def calculate_maturity_level_def levels_def)

section \<open>Claims about the dimension scores\<close>

text \<open>
  Claim C4, as the code has it. Let the data be a well-formed frame whose responses all lie on
  the scale from 1 to 5. Every entry of \<open>calculate_dimension_scores\<close> belongs to a dimension of
  the structure whose items are all columns, and it has one score per respondent. A respondent
  with at least one answer to the items has as score the mean of these answers times
  \<open>100 / 5\<close>, which lies in \<open>[0, 100]\<close>; a respondent with no answer to any item has the score
  NaN. When some respondent has an answer, the reported \<open>mean_score\<close> is the mean of the item
  means times \<open>100 / 5\<close>, rounded to two decimals, and lies in \<open>[0, 100]\<close>; when none has, it is
  NaN and the level is Initial. A respondent with a larger item mean has a larger score.
\<close>

theorem dimension_scores_on_scale:
  assumes "wf_dataframe data" and "on_scale 1 5 data"
    and "(dimension, r) \<in> set (calculate_dimension_scores data theoretical_structure)"
  shows "\<exists>items. (dimension, items) \<in> set theoretical_structure \<and> has_columns data items
      \<and> individual_scores r =
          map (map_option (\<lambda>m. m * (100 / 5))) (row_means (select_columns data items))
      \<and> mean_score r =
          map_option (\<lambda>m. py_round 2 (m * (100 / 5)))
            (series_mean (row_means (select_columns data items)))
      \<and> length (individual_scores r) = nrows data
      \<and> (\<forall>i < nrows data.
            (dropna (row (select_columns data items) i) = [] \<longrightarrow> individual_scores r ! i = None)
          \<and> (dropna (row (select_columns data items) i) \<noteq> [] \<longrightarrow>
               (\<exists>s. individual_scores r ! i = Some s \<and> 0 \<le> s \<and> s \<le> 100
                    \<and> s = mean_list (dropna (row (select_columns data items) i)) * (100 / 5))))
      \<and> ((\<forall>i < nrows data. dropna (row (select_columns data items) i) = []) \<longrightarrow>
            mean_score r = None \<and> maturity_level r = Initial)
      \<and> ((\<exists>i < nrows data. dropna (row (select_columns data items) i) \<noteq> []) \<longrightarrow>
            (\<exists>m. mean_score r = Some m \<and> 0 \<le> m \<and> m \<le> 100))
      \<and> (\<forall>i j a b. i < nrows data \<and> j < nrows data
            \<and> row_means (select_columns data items) ! i = Some a
            \<and> row_means (select_columns data items) ! j = Some b \<and> a \<le> b
            \<longrightarrow> (\<exists>s t. individual_scores r ! i = Some s \<and> individual_scores r ! j = Some t
                       \<and> s \<le> t))"
proof -
  obtain items where it: "(dimension, items) \<in> set theoretical_structure" "has_columns data items"
    and r: "r = dimension_score_of data items"
    using assms(3) by (auto simp: calculate_dimension_scores_def)
  let ?sel = "select_columns data items"
  let ?ms = "row_means ?sel"
  have n: "nrows ?sel = nrows data" by (simp add: select_columns_def)
  have len: "length ?ms = nrows data" by (simp add: length_row_means n)
  have sc: "individual_scores r = map (map_option (\<lambda>m. m * (100 / 5))) ?ms"
    by (simp add: r dimension_score_of_def Let_def)
  have ms: "mean_score r = map_option (\<lambda>m. py_round 2 (m * (100 / 5))) (series_mean ?ms)"
    using series_mean_scale [of 20 ?ms]
    by (simp add: r dimension_score_of_def Let_def option.map_comp comp_def)
  have lv: "maturity_level r =
      calculate_maturity_level (np (map_option (\<lambda>m. m * 20) (series_mean ?ms)))"
    using series_mean_scale [of 20 ?ms] by (simp add: r dimension_score_of_def Let_def)
  have l: "length (individual_scores r) = nrows data" by (simp add: sc len)
  have nth: "individual_scores r ! i = map_option (\<lambda>m. m * (100 / 5)) (series_mean (row ?sel i))"
    if "i < nrows data" for i
    using that len n by (simp add: sc nth_row_means)
  have rows: "\<forall>i < nrows data.
            (dropna (row ?sel i) = [] \<longrightarrow> individual_scores r ! i = None)
          \<and> (dropna (row ?sel i) \<noteq> [] \<longrightarrow>
               (\<exists>s. individual_scores r ! i = Some s \<and> 0 \<le> s \<and> s \<le> 100
                    \<and> s = mean_list (dropna (row ?sel i)) * (100 / 5)))"
  proof (intro allI impI conjI)
    fix i assume i: "i < nrows data" and e: "dropna (row ?sel i) = []"
    show "individual_scores r ! i = None" using nth [OF i] e by (simp add: series_mean_def)
  next
    fix i assume i: "i < nrows data" and e: "dropna (row ?sel i) \<noteq> []"
    let ?m = "mean_list (dropna (row ?sel i))"
    have m: "series_mean (row ?sel i) = Some ?m" using e by (simp add: series_mean_def)
    have "1 \<le> ?m \<and> ?m \<le> 5"
      using series_mean_bounds [OF m] selected_value_on_scale [OF assms(1,2) it(2) i] by blast
    then show "\<exists>s. individual_scores r ! i = Some s \<and> 0 \<le> s \<and> s \<le> 100
                    \<and> s = mean_list (dropna (row ?sel i)) * (100 / 5)"
      using nth [OF i] m by simp
  qed
  have none: "(\<forall>i < nrows data. dropna (row ?sel i) = []) \<longrightarrow>
            mean_score r = None \<and> maturity_level r = Initial"
  proof
    assume "\<forall>i < nrows data. dropna (row ?sel i) = []"
    then have "dropna ?ms = []" using row_means_all_missing [of ?sel] n by simp
    then have "series_mean ?ms = None" by (simp add: series_mean_def)
    then show "mean_score r = None \<and> maturity_level r = Initial"
      by (simp add: ms lv calculate_maturity_level_def)
  qed
  have some: "(\<exists>i < nrows data. dropna (row ?sel i) \<noteq> []) \<longrightarrow>
            (\<exists>m. mean_score r = Some m \<and> 0 \<le> m \<and> m \<le> 100)"
  proof
    assume "\<exists>i < nrows data. dropna (row ?sel i) \<noteq> []"
    then have "dropna ?ms \<noteq> []" using row_means_all_missing [of ?sel] n by auto
    then obtain g where g: "series_mean ?ms = Some g" by (simp add: series_mean_def)
    then have "mean_score r = Some (py_round 2 (g * (100 / 5)))" by (simp add: ms)
    moreover have "0 \<le> py_round 2 (g * (100 / 5)) \<and> py_round 2 (g * (100 / 5)) \<le> 100"
      using dimension_score_of_on_scale(2) [OF assms(1,2) it(2)] calculation r by blast
    ultimately show "\<exists>m. mean_score r = Some m \<and> 0 \<le> m \<and> m \<le> 100" by blast
  qed
  have mono: "\<forall>i j a b. i < nrows data \<and> j < nrows data \<and> ?ms ! i = Some a \<and> ?ms ! j = Some b \<and> a \<le> b
            \<longrightarrow> (\<exists>s t. individual_scores r ! i = Some s \<and> individual_scores r ! j = Some t \<and> s \<le> t)"
    using len by (auto simp: sc)
  show ?thesis using it sc ms l rows none some mono by blast
qed


text \<open>The amended claim C4 at three respondents, the last of whom gave no answer, and a
  dimension of two items, beside a dimension that is skipped because its item is no column.\<close>

theorem dimension_scores_on_scale_witness:
  "wf_dataframe
     \<lparr>nrows = 3, columns = [(''q1'', [Some 5, Some 1, None]), (''q2'', [Some 4, None, None])]\<rparr>
   \<and> on_scale 1 5
     \<lparr>nrows = 3, columns = [(''q1'', [Some 5, Some 1, None]), (''q2'', [Some 4, None, None])]\<rparr>
   \<and> calculate_dimension_scores
        \<lparr>nrows = 3, columns = [(''q1'', [Some 5, Some 1, None]), (''q2'', [Some 4, None, None])]\<rparr>
        [(''Leadership'', [''q1'', ''q2'']), (''Process'', [''q3''])]
      = [(''Leadership'',
          \<lparr>individual_scores = [Some 90, Some 20, None], mean_score = Some 55,
            maturity_level = Developpement\<rparr>)]
   \<and> (\<exists>s. [Some 90, Some 20, None] ! 0 = Some s \<and> 0 \<le> s \<and> s \<le> (100::real))
   \<and> [Some 90, Some 20, None :: real option] ! 2 = None
   \<and> (\<exists>m. Some 55 = Some m \<and> 0 \<le> m \<and> m \<le> (100::real))"
proof -
  let ?data = "\<lparr>nrows = 3, columns = [(''q1'', [Some 5, Some 1, None]), (''q2'', [Some 4, None, None])]\<rparr>"
  let ?st = "[(''Leadership'', [''q1'', ''q2'']), (''Process'', [''q3''])]"
  let ?r = "\<lparr>individual_scores = [Some 90, Some 20, None], mean_score = Some 55,
            maturity_level = Developpement\<rparr>"
  let ?sel = "select_columns ?data [''q1'', ''q2'']"
  have wf: "wf_dataframe ?data" by (simp add: wf_dataframe_def)
  have sc: "on_scale 1 5 ?data" by (simp add: on_scale_def)
  have ev: "calculate_dimension_scores ?data ?st = [(''Leadership'', ?r)]"
    by code_simp
  then have mem: "(''Leadership'', ?r) \<in> set (calculate_dimension_scores ?data ?st)" by simp
  have r0: "dropna (row ?sel 0) \<noteq> []" by code_simp
  have r2: "dropna (row ?sel 2) = []" by code_simp
  from dimension_scores_on_scale [OF wf sc mem]
  obtain items where it: "(''Leadership'', items) \<in> set ?st"
    and rows: "\<forall>i < nrows ?data.
            (dropna (row (select_columns ?data items) i) = [] \<longrightarrow> individual_scores ?r ! i = None)
          \<and> (dropna (row (select_columns ?data items) i) \<noteq> [] \<longrightarrow>
               (\<exists>s. individual_scores ?r ! i = Some s \<and> 0 \<le> s \<and> s \<le> 100
                    \<and> s = mean_list (dropna (row (select_columns ?data items) i)) * (100 / 5)))"
    and some: "(\<exists>i < nrows ?data. dropna (row (select_columns ?data items) i) \<noteq> []) \<longrightarrow>
            (\<exists>m. mean_score ?r = Some m \<and> 0 \<le> m \<and> m \<le> 100)"
    by blast
  have items: "items = [''q1'', ''q2'']" using it by simp
  have a: "\<exists>s. individual_scores ?r ! 0 = Some s \<and> 0 \<le> s \<and> s \<le> 100"
    using rows r0 unfolding items by force
  have b: "individual_scores ?r ! 2 = None"
    using rows r2 unfolding items by force
  have c: "\<exists>m. mean_score ?r = Some m \<and> 0 \<le> m \<and> m \<le> 100"
    using some r0 unfolding items by force
  show ?thesis using wf sc ev a b c by simp
qed

text \<open>
  Claim C4 as it is written fails: the responses of both frames lie on the scale, yet the
  second respondent of the first frame, who answered no item, has the score NaN, and the
  frame without respondents has the mean score NaN; neither lies in \<open>[0, 100]\<close>.
\<close>

theorem dimension_scores_nan_counterexample:
  "wf_dataframe \<lparr>nrows = 2, columns = [(''q1'', [Some 5, None]), (''q2'', [Some 4, None])]\<rparr>
   \<and> on_scale 1 5 \<lparr>nrows = 2, columns = [(''q1'', [Some 5, None]), (''q2'', [Some 4, None])]\<rparr>
   \<and> calculate_dimension_scores
        \<lparr>nrows = 2, columns = [(''q1'', [Some 5, None]), (''q2'', [Some 4, None])]\<rparr>
        [(''Leadership'', [''q1'', ''q2''])]
      = [(''Leadership'',
          \<lparr>individual_scores = [Some 90, None], mean_score = Some 90,
            maturity_level = Excellence\<rparr>)]
   \<and> wf_dataframe \<lparr>nrows = 0, columns = [(''q1'', []), (''q2'', [])]\<rparr>
   \<and> on_scale 1 5 \<lparr>nrows = 0, columns = [(''q1'', []), (''q2'', [])]\<rparr>
   \<and> calculate_dimension_scores
        \<lparr>nrows = 0, columns = [(''q1'', []), (''q2'', [])]\<rparr>
        [(''Leadership'', [''q1'', ''q2''])]
      = [(''Leadership'',
          \<lparr>individual_scores = [], mean_score = None, maturity_level = Initial\<rparr>)]"
proof -
  have "wf_dataframe \<lparr>nrows = 2, columns = [(''q1'', [Some 5, None]), (''q2'', [Some 4, None])]\<rparr>"
    "wf_dataframe \<lparr>nrows = 0, columns = [(''q1'', []), (''q2'', [])]\<rparr>"
    by (simp_all add: wf_dataframe_def)
  moreover have "on_scale 1 5 \<lparr>nrows = 2, columns = [(''q1'', [Some 5, None]), (''q2'', [Some 4, None])]\<rparr>"
    "on_scale 1 5 \<lparr>nrows = 0, columns = [(''q1'', []), (''q2'', [])]\<rparr>"
    by (simp_all add: on_scale_def)
  moreover have "calculate_dimension_scores
        \<lparr>nrows = 2, columns = [(''q1'', [Some 5, None]), (''q2'', [Some 4, None])]\<rparr>
        [(''Leadership'', [''q1'', ''q2''])]
      = [(''Leadership'',
          \<lparr>individual_scores = [Some 90, None], mean_score = Some 90,
            maturity_level = Excellence\<rparr>)]"
    by code_simp
  moreover have "calculate_dimension_scores
        \<lparr>nrows = 0, columns = [(''q1'', []), (''q2'', [])]\<rparr>
        [(''Leadership'', [''q1'', ''q2''])]
      = [(''Leadership'',
          \<lparr>individual_scores = [], mean_score = None, maturity_level = Initial\<rparr>)]"
    by code_simp
  ultimately show ?thesis by blast
qed

section \<open>Claims about the discriminant validity\<close>





section \<open>Claims about the weighted maturity\<close>

text \<open>
  Claim C8, as the code has it, for a supplied weights mapping. An empty response frame
  returns the overall maturity 0 with the level Initial/Ad-hoc, whatever the weights. A frame
  that is not empty and has no weighted column raises ZeroDivisionError. A frame that is not
  empty and has a weighted column returns one entry per weighted column and, as overall
  maturity, the sum of the reported weighted scores divided by the total weight as numpy
  divides, rounded to two decimals; the level is taken before the rounding. When the total
  weight is zero this is no error and no finite score: it is NaN or minus infinity with the
  level Initial/Ad-hoc, or plus infinity with the level Optimizing. When the total weight is
  not zero and every weighted column has a valid response it is the quotient of real numbers.
\<close>

theorem calculate_maturity_weighted:
  "(df_empty responses \<longrightarrow>
      calculate_maturity responses (Some w) =
        Inr \<lparr> overall_maturity = Fin 0, overall_level = ''Initial/Ad-hoc'',
              dimension_scores = [], from_guard = True \<rparr>)
   \<and> (\<not> df_empty responses \<and> scored_columns responses w = [] \<longrightarrow>
      calculate_maturity responses (Some w) = Inl ZeroDivisionError)
   \<and> (\<not> df_empty responses \<and> scored_columns responses w \<noteq> [] \<longrightarrow>
      (\<exists>r. calculate_maturity responses (Some w) = Inr r
         \<and> map fst (dimension_scores r) = map fst (scored_columns responses w)
         \<and> overall_maturity r =
             np_round 2 (np_div (np_sum (map (\<lambda>e. weighted_score (snd e)) (dimension_scores r)))
                                (Fin (total_weight responses w)))
         \<and> overall_level r =
             get_maturity_level
               (np_div (np_sum (map (\<lambda>e. weighted_score (snd e)) (dimension_scores r)))
                       (Fin (total_weight responses w)))
         \<and> (total_weight responses w = 0 \<longrightarrow>
              overall_maturity r = NaN \<and> overall_level r = ''Initial/Ad-hoc''
              \<or> overall_maturity r = NInf \<and> overall_level r = ''Initial/Ad-hoc''
              \<or> overall_maturity r = PInf \<and> overall_level r = ''Optimizing'')
         \<and> (total_weight responses w \<noteq> 0
              \<and> list_all (\<lambda>c. dropna (snd c) \<noteq> []) (scored_columns responses w) \<longrightarrow>
              overall_maturity r =
                Fin (py_round 2
                  ((\<Sum>c\<leftarrow>scored_columns responses w.
                      py_round 2 (mean_list (dropna (snd c)) * the (map_of w (fst c))))
                   / total_weight responses w)))))"
proof (intro conjI impI)
  assume "df_empty responses"
  then show "calculate_maturity responses (Some w) =
        Inr \<lparr> overall_maturity = Fin 0, overall_level = ''Initial/Ad-hoc'',
              dimension_scores = [], from_guard = True \<rparr>"
    by (rule calculate_maturity_empty)
next
  assume "\<not> df_empty responses \<and> scored_columns responses w = []"
  then show "calculate_maturity responses (Some w) = Inl ZeroDivisionError"
    using calculate_maturity_unweighted by blast
next
  assume a: "\<not> df_empty responses \<and> scored_columns responses w \<noteq> []"
  obtain r where r: "calculate_maturity responses (Some w) = Inr r"
    and g: "map fst (dimension_scores r) = map fst (scored_columns responses w)"
      "overall_maturity r =
             np_round 2 (np_div (np_sum (map (\<lambda>e. weighted_score (snd e)) (dimension_scores r)))
                                (Fin (total_weight responses w)))"
      "overall_level r =
             get_maturity_level
               (np_div (np_sum (map (\<lambda>e. weighted_score (snd e)) (dimension_scores r)))
                       (Fin (total_weight responses w)))"
    using calculate_maturity_weighted_general [of responses w] a by blast
  have z: "total_weight responses w = 0 \<longrightarrow>
              overall_maturity r = NaN \<and> overall_level r = ''Initial/Ad-hoc''
              \<or> overall_maturity r = NInf \<and> overall_level r = ''Initial/Ad-hoc''
              \<or> overall_maturity r = PInf \<and> overall_level r = ''Optimizing''"
    using calculate_maturity_zero_weight [of responses w] a r by auto
  have f: "total_weight responses w \<noteq> 0
              \<and> list_all (\<lambda>c. dropna (snd c) \<noteq> []) (scored_columns responses w) \<longrightarrow>
              overall_maturity r =
                Fin (py_round 2
                  ((\<Sum>c\<leftarrow>scored_columns responses w.
                      py_round 2 (mean_list (dropna (snd c)) * the (map_of w (fst c))))
                   / total_weight responses w))"
    using calculate_maturity_weighted_finite [of responses w] a r by auto
  show "\<exists>r. calculate_maturity responses (Some w) = Inr r
         \<and> map fst (dimension_scores r) = map fst (scored_columns responses w)
         \<and> overall_maturity r =
             np_round 2 (np_div (np_sum (map (\<lambda>e. weighted_score (snd e)) (dimension_scores r)))
                                (Fin (total_weight responses w)))
         \<and> overall_level r =
             get_maturity_level
               (np_div (np_sum (map (\<lambda>e. weighted_score (snd e)) (dimension_scores r)))
                       (Fin (total_weight responses w)))
         \<and> (total_weight responses w = 0 \<longrightarrow>
              overall_maturity r = NaN \<and> overall_level r = ''Initial/Ad-hoc''
              \<or> overall_maturity r = NInf \<and> overall_level r = ''Initial/Ad-hoc''
              \<or> overall_maturity r = PInf \<and> overall_level r = ''Optimizing'')
         \<and> (total_weight responses w \<noteq> 0
              \<and> list_all (\<lambda>c. dropna (snd c) \<noteq> []) (scored_columns responses w) \<longrightarrow>
              overall_maturity r =
                Fin (py_round 2
                  ((\<Sum>c\<leftarrow>scored_columns responses w.
                      py_round 2 (mean_list (dropna (snd c)) * the (map_of w (fst c))))
                   / total_weight responses w)))"
    using r g z f by blast
qed


text \<open>The amended claim C8 at an empty frame, at a frame without a weighted column, at a
  column of weight 0, and at a frame of two weighted columns.\<close>

theorem calculate_maturity_weighted_witness:
  "(df_empty \<lparr>nrows = 0, columns = [(''leadership'', [])]\<rparr>
     \<and> calculate_maturity \<lparr>nrows = 0, columns = [(''leadership'', [])]\<rparr> (Some [(''leadership'', 2)]) =
         Inr \<lparr> overall_maturity = Fin 0, overall_level = ''Initial/Ad-hoc'',
               dimension_scores = [], from_guard = True \<rparr>)
   \<and> (\<not> df_empty \<lparr>nrows = 2, columns = [(''leadership'', [Some 4, Some 5])]\<rparr>
     \<and> scored_columns \<lparr>nrows = 2, columns = [(''leadership'', [Some 4, Some 5])]\<rparr> [(''process'', 1)] = []
     \<and> calculate_maturity \<lparr>nrows = 2, columns = [(''leadership'', [Some 4, Some 5])]\<rparr>
          (Some [(''process'', 1)]) = Inl ZeroDivisionError)
   \<and> (scored_columns \<lparr>nrows = 2, columns = [(''leadership'', [Some 4, Some 5])]\<rparr> [(''leadership'', 0)]
         \<noteq> []
     \<and> total_weight \<lparr>nrows = 2, columns = [(''leadership'', [Some 4, Some 5])]\<rparr> [(''leadership'', 0)]
         = 0
     \<and> (\<exists>r. calculate_maturity \<lparr>nrows = 2, columns = [(''leadership'', [Some 4, Some 5])]\<rparr>
               (Some [(''leadership'', 0)]) = Inr r
           \<and> overall_maturity r = NaN \<and> overall_level r = ''Initial/Ad-hoc''))
   \<and> (\<not> df_empty
         \<lparr>nrows = 2, columns = [(''leadership'', [Some 4, Some 5]), (''process'', [Some 3, None])]\<rparr>
     \<and> total_weight
         \<lparr>nrows = 2, columns = [(''leadership'', [Some 4, Some 5]), (''process'', [Some 3, None])]\<rparr>
         [(''leadership'', 2), (''process'', 1)] = 3
     \<and> (\<exists>r. calculate_maturity
         \<lparr>nrows = 2, columns = [(''leadership'', [Some 4, Some 5]), (''process'', [Some 3, None])]\<rparr>
         (Some [(''leadership'', 2), (''process'', 1)]) = Inr r
         \<and> overall_maturity r = Fin 4 \<and> overall_level r = ''Quantitatively Managed''))"
proof -
  let ?E = "\<lparr>nrows = 0, columns = [(''leadership'', [])]\<rparr>"
  let ?D1 = "\<lparr>nrows = 2, columns = [(''leadership'', [Some 4, Some 5])]\<rparr>"
  let ?D2 = "\<lparr>nrows = 2, columns = [(''leadership'', [Some 4, Some 5]), (''process'', [Some 3, None])]\<rparr>"
  let ?W0 = "[(''leadership'', 0)]"
  let ?W2 = "[(''leadership'', 2), (''process'', 1)]"
  have e: "df_empty ?E" by (simp add: df_empty_def)
  have d1: "\<not> df_empty ?D1 \<and> scored_columns ?D1 [(''process'', 1)] = []"
    by (simp add: df_empty_def scored_columns_def)
  have sc0: "scored_columns ?D1 ?W0 = [(''leadership'', [Some 4, Some 5])]"
    by (simp add: scored_columns_def)
  have tw0: "total_weight ?D1 ?W0 = 0" by (simp add: total_weight_def sc0)
  have d0: "\<not> df_empty ?D1 \<and> scored_columns ?D1 ?W0 \<noteq> []" by (simp add: df_empty_def sc0)
  have sc2: "scored_columns ?D2 ?W2 = [(''leadership'', [Some 4, Some 5]), (''process'', [Some 3, None])]"
    by (simp add: scored_columns_def)
  have tw: "total_weight ?D2 ?W2 = 3" by (simp add: total_weight_def sc2)
  have d2: "\<not> df_empty ?D2 \<and> scored_columns ?D2 ?W2 \<noteq> []"
    by (simp add: df_empty_def sc2)
  have v2: "total_weight ?D2 ?W2 \<noteq> 0 \<and> list_all (\<lambda>c. dropna (snd c) \<noteq> []) (scored_columns ?D2 ?W2)"
    by (simp add: sc2 tw)
  have ws: "(\<Sum>c\<leftarrow>scored_columns ?D2 ?W2.
                py_round 2 (mean_list (dropna (snd c)) * the (map_of ?W2 (fst c)))) = 12"
    by (simp add: sc2 mean_list_def py_round_def rint_def Let_def)
  have t1: "calculate_maturity ?E (Some [(''leadership'', 2)]) =
         Inr \<lparr> overall_maturity = Fin 0, overall_level = ''Initial/Ad-hoc'',
               dimension_scores = [], from_guard = True \<rparr>"
    using e calculate_maturity_weighted [of ?E "[(''leadership'', 2)]"] by blast
  have t2: "calculate_maturity ?D1 (Some [(''process'', 1)]) = Inl ZeroDivisionError"
    using d1 calculate_maturity_weighted [of ?D1 "[(''process'', 1)]"] by blast
  obtain r0 where r0: "calculate_maturity ?D1 (Some ?W0) = Inr r0"
    and z0: "overall_maturity r0 = NaN \<and> overall_level r0 = ''Initial/Ad-hoc''
              \<or> overall_maturity r0 = NInf \<and> overall_level r0 = ''Initial/Ad-hoc''
              \<or> overall_maturity r0 = PInf \<and> overall_level r0 = ''Optimizing''"
    using d0 tw0 calculate_maturity_weighted [of ?D1 ?W0] by blast
  have ev0: "calculate_maturity ?D1 (Some ?W0) =
       Inr \<lparr> overall_maturity = NaN, overall_level = ''Initial/Ad-hoc'',
             dimension_scores =
               [(''leadership'',
                 \<lparr>score = Fin (45 / 10), weighted_score = Fin 0, level = ''Optimizing''\<rparr>)],
             from_guard = False \<rparr>"
    by code_simp
  have t0: "overall_maturity r0 = NaN \<and> overall_level r0 = ''Initial/Ad-hoc''"
    using r0 ev0 z0 by auto
  obtain r where r: "calculate_maturity ?D2 (Some ?W2) = Inr r"
    and om: "overall_maturity r =
                Fin (py_round 2
                  ((\<Sum>c\<leftarrow>scored_columns ?D2 ?W2.
                      py_round 2 (mean_list (dropna (snd c)) * the (map_of ?W2 (fst c))))
                   / total_weight ?D2 ?W2))"
    using d2 v2 calculate_maturity_weighted [of ?D2 ?W2] by blast
  have om4: "overall_maturity r = Fin 4" unfolding om ws tw by (simp add: py_round_def rint_def Let_def)
  have ev: "calculate_maturity ?D2 (Some ?W2) =
      Inr \<lparr> overall_maturity = Fin 4, overall_level = ''Quantitatively Managed'',
        dimension_scores =
          [(''leadership'', \<lparr>score = Fin (45 / 10), weighted_score = Fin 9, level = ''Optimizing''\<rparr>),
           (''process'', \<lparr>score = Fin 3, weighted_score = Fin 3, level = ''Defined''\<rparr>)],
        from_guard = False \<rparr>"
    by code_simp
  then have "overall_level r = ''Quantitatively Managed''" using r by simp
  then show ?thesis using e d1 d0 tw0 r0 t0 d2 tw t1 t2 r om4 by blast
qed

text \<open>
  Claim C8 as it is written fails. For a column of weight 0 the total weight is zero, and the
  result is the score NaN with the level Initial/Ad-hoc, without any error. For an empty
  frame no dimension is scored, the total weight is zero, and the result is the score 0,
  again without any error.
\<close>

theorem calculate_maturity_zero_total_weight_counterexample:
  "total_weight \<lparr>nrows = 2, columns = [(''leadership'', [Some 4, Some 5])]\<rparr>
        [(''leadership'', 0)] = 0
   \<and> calculate_maturity \<lparr>nrows = 2, columns = [(''leadership'', [Some 4, Some 5])]\<rparr>
        (Some [(''leadership'', 0)]) =
       Inr \<lparr> overall_maturity = NaN, overall_level = ''Initial/Ad-hoc'',
             dimension_scores =
               [(''leadership'',
                 \<lparr>score = Fin (45 / 10), weighted_score = Fin 0, level = ''Optimizing''\<rparr>)],
             from_guard = False \<rparr>
   \<and> total_weight \<lparr>nrows = 0, columns = []\<rparr> [(''leadership'', 1)] = 0
   \<and> calculate_maturity \<lparr>nrows = 0, columns = []\<rparr> (Some [(''leadership'', 1)]) =
       Inr \<lparr> overall_maturity = Fin 0, overall_level = ''Initial/Ad-hoc'',
             dimension_scores = [], from_guard = True \<rparr>"
  by code_simp


end
